theory Spec2Isabelle
  imports Main "HOL-Library.Sublist" "HOL-Library.Char_ord" "HOL-Library.List_Lexorder"
begin

section \<open>Python values used by bkk\_departures.py\<close>

text \<open>
  Strings are byte lists (UTF-8). Substring containment and ordering of UTF-8 byte
  strings agree with Python's code-point based \<^verbatim>\<open>in\<close> and \<^verbatim>\<open><\<close> on \<^verbatim>\<open>str\<close>.
  A naive \<^verbatim>\<open>datetime\<close> is the number of microseconds since 1970-01-01 00:00:00 on the
  local wall-clock time line; a \<^verbatim>\<open>timedelta\<close> is a number of microseconds.
\<close>

type_synonym datetime = int
type_synonym timedelta = int

datatype py_error = ValueError | DecodeError | RequestException | DataLoadError | EOFError

definition digit_char :: "nat \<Rightarrow> char" where
  "digit_char n = char_of (48 + n)"

fun digits :: "nat \<Rightarrow> string" where
  "digits n = (if n < 10 then [digit_char n] else digits (n div 10) @ [digit_char (n mod 10)])"

declare digits.simps [simp del]

text \<open>\<^verbatim>\<open>"%d" % i\<close>\<close>

definition str_int :: "int \<Rightarrow> string" where
  "str_int i = (if i < 0 then CHR ''-'' # digits (nat (- i)) else digits (nat i))"

text \<open>\<^verbatim>\<open>"%02d" % n\<close> and \<^verbatim>\<open>"%06d" % n\<close> for a non-negative \<open>n\<close>.\<close>

definition zero_pad :: "nat \<Rightarrow> string \<Rightarrow> string" where
  "zero_pad w s = replicate (w - length s) (CHR ''0'') @ s"

definition fmt_02d :: "nat \<Rightarrow> string" where
  "fmt_02d n = zero_pad 2 (digits n)"

definition fmt_06d :: "nat \<Rightarrow> string" where
  "fmt_06d n = zero_pad 6 (digits n)"

text \<open>\<^verbatim>\<open>timedelta(minutes=m)\<close>\<close>

definition timedelta_minutes :: "int \<Rightarrow> timedelta" where
  "timedelta_minutes m = m * 60000000"

text \<open>
  \<^verbatim>\<open>str(td)\<close> for a \<^verbatim>\<open>timedelta\<close>: the normalised fields are days (any sign),
  seconds in \<open>[0, 86400)\<close> and microseconds in \<open>[0, 10^6)\<close>; the text is
  \<^verbatim>\<open>[D day[s], ]H:MM:SS[.ffffff]\<close>.
\<close>

definition timedelta_str :: "timedelta \<Rightarrow> string" where
  "timedelta_str td =
     (let days = td div 86400000000;
          rest = td mod 86400000000;
          seconds = nat (rest div 1000000);
          microseconds = nat (rest mod 1000000);
          hh = seconds div 3600;
          mm = (seconds div 60) mod 60;
          ss = seconds mod 60;
          s0 = digits hh @ '':'' @ fmt_02d mm @ '':'' @ fmt_02d ss;
          s1 = (if days \<noteq> 0
                then str_int days @ '' day'' @ (if \<bar>days\<bar> \<noteq> 1 then ''s'' else '''') @ '', '' @ s0
                else s0)
      in if microseconds \<noteq> 0 then s1 @ ''.'' @ fmt_06d microseconds else s1)"

text \<open>\<^verbatim>\<open>s.split(".")[0]\<close>: the text before the first dot, all of it when there is none.\<close>

definition split_dot_first :: "string \<Rightarrow> string" where
  "split_dot_first s = takeWhile (\<lambda>c. c \<noteq> CHR ''.'') s"

text \<open>\<^verbatim>\<open>dt.strftime("%H:%M:%S")\<close>\<close>

definition strftime_HMS :: "datetime \<Rightarrow> string" where
  "strftime_HMS dt =
     (let sod = nat ((dt div 1000000) mod 86400)
      in fmt_02d (sod div 3600) @ '':'' @ fmt_02d ((sod div 60) mod 60) @ '':'' @ fmt_02d (sod mod 60))"

text \<open>
  \<^verbatim>\<open>datetime.fromtimestamp(ts)\<close>: the local wall-clock time of a POSIX timestamp.
  The local zone is the parameter \<open>utcoffset\<close> (seconds east of UTC at a given
  timestamp). Python raises when the local year leaves 1..9999 (a \<^verbatim>\<open>ValueError\<close>, or
  an \<^verbatim>\<open>OverflowError\<close> or \<^verbatim>\<open>OSError\<close> from the C library; one error value stands for
  all three). To detect a repeated wall-clock hour it also converts the instant 24 hours
  earlier, and raises when that one leaves the range. The bounds are
  0001-01-01 00:00:00 and 9999-12-31 23:59:59.
\<close>

definition fromtimestamp :: "(int \<Rightarrow> int) \<Rightarrow> int \<Rightarrow> py_error + datetime" where
  "fromtimestamp utcoffset ts =
     (let local = ts + utcoffset ts;
          probe = (ts - 86400) + utcoffset (ts - 86400)
      in if - 62135596800 \<le> local \<and> local \<le> 253402300799
            \<and> - 62135596800 \<le> probe \<and> probe \<le> 253402300799
         then Inr (local * 1000000) else Inl ValueError)"

text \<open>\<^verbatim>\<open>sep.join(xs)\<close>\<close>

fun join :: "string \<Rightarrow> string list \<Rightarrow> string" where
  "join sep [] = []"
| "join sep [x] = x"
| "join sep (x # y # ys) = x @ sep @ join sep (y # ys)"

section \<open>Data model\<close>

text \<open>
  One row of stops.txt, keyed by its stop id in \<open>stops_mapping\<close>. A Python dict is an
  association list in insertion order; its keys are distinct.
\<close>

record stop_details =
  stop_name :: string
  other_attributes :: "(string \<times> string) list"

type_synonym stops_mapping = "(string \<times> stop_details) list"
type_synonym routes_mapping = "(string \<times> string) list"

text \<open>
  The decoded GTFS-realtime feed. \<open>arrival st\<close> is \<^verbatim>\<open>stop_time.arrival.time\<close> when
  \<^verbatim>\<open>stop_time.arrival.HasField("time")\<close> and \<open>None\<close> otherwise; \<open>trip_route_id\<close> is
  \<^verbatim>\<open>trip_update.trip.route_id\<close>, the empty string when the field is unset.
\<close>

record stop_time_update =
  stop_id :: string
  arrival :: "int option"

record trip_update =
  trip_route_id :: string
  stop_time_updates :: "stop_time_update list"

record feed_entity =
  entity_trip_update :: "trip_update option"

record feed_message =
  entity :: "feed_entity list"

text \<open>The dict appended to \<^verbatim>\<open>incoming_trams\<close>.\<close>

record tram =
  tram_number :: string
  route_id :: string
  tram_stop_name :: string
  arrival_time :: string
  time_to_arrival :: string

section \<open>Configuration\<close>

definition API_KEY :: string where
  "API_KEY = ''''"

definition URL :: string where
  "URL = ''https://go.bkk.hu/api/query/v1/ws/gtfs-rt/full/TripUpdates.pb?key='' @ API_KEY"

definition TIME_WINDOW_MINUTES :: int where
  "TIME_WINDOW_MINUTES = 5"

section \<open>fetch\_gtfs\_rt\_feed\<close>

text \<open>
  \<open>requests_get\<close> is the HTTP transport and \<open>ParseFromString\<close> the protobuf decoder;
  either may raise, and nothing here catches it.
\<close>

definition fetch_gtfs_rt_feed ::
  "(string \<Rightarrow> py_error + string) \<Rightarrow> (string \<Rightarrow> py_error + feed_message) \<Rightarrow> string
     \<Rightarrow> py_error + feed_message" where
  "fetch_gtfs_rt_feed requests_get ParseFromString url =
     (case requests_get url of
        Inl e \<Rightarrow> Inl e
      | Inr content \<Rightarrow>
          (case ParseFromString content of
             Inl e \<Rightarrow> Inl e
           | Inr feed \<Rightarrow> Inr feed))"

section \<open>find\_stops\_by\_name\<close>

text \<open>
  \<open>lower\<close> is Python's \<^verbatim>\<open>str.lower\<close> (the Unicode case table is not part of the
  program). \<open>sublist xs ys\<close> is \<^verbatim>\<open>xs in ys\<close> on strings.
\<close>

definition find_stops_by_name :: "(string \<Rightarrow> string) \<Rightarrow> stops_mapping \<Rightarrow> string \<Rightarrow> stops_mapping" where
  "find_stops_by_name lower stops_mapping stop_name_query =
     filter (\<lambda>(stop_id, details). sublist (lower stop_name_query) (lower (stop_name details)))
       stops_mapping"

text \<open>A lowering that maps the ASCII capitals and leaves every other byte alone.\<close>

definition ascii_lower_char :: "char \<Rightarrow> char" where
  "ascii_lower_char c =
     (if 65 \<le> (of_char c :: nat) \<and> (of_char c :: nat) \<le> 90 then char_of (of_char c + (32 :: nat)) else c)"

definition ascii_lower :: "string \<Rightarrow> string" where
  "ascii_lower s = map ascii_lower_char s"

section \<open>get\_incoming\_trams\<close>

text \<open>The body of the inner loop: the list of dicts it appends (none or one), or the error raised.\<close>

definition stop_time_step ::
  "(int \<Rightarrow> int) \<Rightarrow> routes_mapping \<Rightarrow> stops_mapping \<Rightarrow> datetime \<Rightarrow> trip_update \<Rightarrow> stop_time_update
     \<Rightarrow> py_error + tram list" where
  "stop_time_step utcoffset routes_mapping selected_stops current_time tu stop_time =
     (case map_of selected_stops (stop_id stop_time) of
        None \<Rightarrow> Inr []
      | Some details \<Rightarrow>
          (case arrival stop_time of
             None \<Rightarrow> Inr []
           | Some ts \<Rightarrow>
               (case fromtimestamp utcoffset ts of
                  Inl e \<Rightarrow> Inl e
                | Inr arrival_time' \<Rightarrow>
                    (let time_to_arrival' = arrival_time' - current_time
                     in if 0 \<le> time_to_arrival' \<and> time_to_arrival' \<le> timedelta_minutes TIME_WINDOW_MINUTES
                        then
                          (let route_id' = (if trip_route_id tu \<noteq> '''' then trip_route_id tu
                                            else ''Unknown Route'');
                               tram_number' = (case map_of routes_mapping route_id' of
                                                 Some n \<Rightarrow> n | None \<Rightarrow> ''Unknown'');
                               headsign = stop_name details
                           in Inr [\<lparr> tram_number = tram_number',
                                     route_id = route_id',
                                     tram_stop_name = headsign,
                                     arrival_time = strftime_HMS arrival_time',
                                     time_to_arrival = split_dot_first (timedelta_str time_to_arrival') \<rparr>])
                        else Inr []))))"

text \<open>\<^verbatim>\<open>for stop_time in trip_update.stop_time_update\<close>, with \<open>incoming_trams\<close> threaded through.\<close>

fun stop_time_loop ::
  "(int \<Rightarrow> int) \<Rightarrow> routes_mapping \<Rightarrow> stops_mapping \<Rightarrow> datetime \<Rightarrow> trip_update
     \<Rightarrow> stop_time_update list \<Rightarrow> tram list \<Rightarrow> py_error + tram list" where
  "stop_time_loop utcoffset routes_mapping selected_stops current_time tu [] incoming_trams =
     Inr incoming_trams"
| "stop_time_loop utcoffset routes_mapping selected_stops current_time tu (stop_time # rest) incoming_trams =
     (case stop_time_step utcoffset routes_mapping selected_stops current_time tu stop_time of
        Inl e \<Rightarrow> Inl e
      | Inr new \<Rightarrow>
          stop_time_loop utcoffset routes_mapping selected_stops current_time tu rest
            (incoming_trams @ new))"

text \<open>\<^verbatim>\<open>for entity in feed.entity\<close>\<close>

fun entity_loop ::
  "(int \<Rightarrow> int) \<Rightarrow> routes_mapping \<Rightarrow> stops_mapping \<Rightarrow> datetime
     \<Rightarrow> feed_entity list \<Rightarrow> tram list \<Rightarrow> py_error + tram list" where
  "entity_loop utcoffset routes_mapping selected_stops current_time [] incoming_trams =
     Inr incoming_trams"
| "entity_loop utcoffset routes_mapping selected_stops current_time (e # rest) incoming_trams =
     (case entity_trip_update e of
        None \<Rightarrow> entity_loop utcoffset routes_mapping selected_stops current_time rest incoming_trams
      | Some tu \<Rightarrow>
          (case stop_time_loop utcoffset routes_mapping selected_stops current_time tu
                  (stop_time_updates tu) incoming_trams of
             Inl err \<Rightarrow> Inl err
           | Inr incoming_trams' \<Rightarrow>
               entity_loop utcoffset routes_mapping selected_stops current_time rest incoming_trams'))"

definition get_incoming_trams ::
  "(int \<Rightarrow> int) \<Rightarrow> feed_message \<Rightarrow> routes_mapping \<Rightarrow> stops_mapping \<Rightarrow> datetime
     \<Rightarrow> py_error + tram list" where
  "get_incoming_trams utcoffset feed routes_mapping selected_stops current_time =
     entity_loop utcoffset routes_mapping selected_stops current_time (entity feed) []"

section \<open>display\_real\_time\_board\<close>

text \<open>What the program writes and waits for, in order.\<close>

datatype event =
    Print string
  | Input string
  | PrintTable "string list" "string list list"
  | Sleep nat

text \<open>\<^verbatim>\<open>sorted(trams, key=lambda x: x["time_to_arrival"])\<close>: a stable sort on the string key.\<close>

definition sorted_trams :: "tram list \<Rightarrow> tram list" where
  "sorted_trams trams = sort_key time_to_arrival trams"

definition board_table :: "tram list \<Rightarrow> string list list" where
  "board_table trams =
     map (\<lambda>t. [tram_number t, tram_stop_name t, arrival_time t, time_to_arrival t]) (sorted_trams trams)"

definition display_real_time_board :: "tram list \<Rightarrow> event list" where
  "display_real_time_board trams =
     [PrintTable [''Tram Number'', ''Stop Name'', ''Arrival Time'', ''Time to Arrival'']
        (board_table trams)]"

section \<open>main\<close>

text \<open>
  One pass of \<^verbatim>\<open>while True\<close> reads the clock and the network once: \<open>now\<close> is
  \<^verbatim>\<open>datetime.now()\<close> and \<open>response\<close> what \<^verbatim>\<open>requests.get(URL)\<close> gives in that pass
  (the body, or the exception it raises).
\<close>

record cycle =
  now :: datetime
  response :: "py_error + string"

text \<open>
  Everything outside the program: the Python built-ins that depend on Unicode tables or
  the local zone, the decoder, the outcome of \<^verbatim>\<open>load_gtfs_static_files\<close> (pandas reading
  routes.txt and stops.txt), the lines available on standard input and the passes of
  the loop that the surroundings let happen.
\<close>

record env =
  str_lower :: "string \<Rightarrow> string"
  str_strip :: "string \<Rightarrow> string"
  utcoffset :: "int \<Rightarrow> int"
  ParseFromString :: "string \<Rightarrow> py_error + feed_message"
  static_files :: "py_error + (routes_mapping \<times> stops_mapping)"
  stdin :: "string list"
  cycles :: "cycle list"

text \<open>
  How a run ends: \<open>Returned\<close> is \<^verbatim>\<open>return\<close> from \<^verbatim>\<open>main\<close>, \<open>Raised e\<close> an exception
  leaving \<^verbatim>\<open>main\<close>, and \<open>Running\<close> a loop that has finished every pass it was given
  and is about to start another.
\<close>

datatype outcome = Returned | Raised py_error | Running

definition board_header :: "stops_mapping \<Rightarrow> string" where
  "board_header selected_stops =
     ''Real-Time Tram Timetable for Stops: ''
       @ join '', '' (map (\<lambda>(stop_id, details). stop_name details) selected_stops)
       @ '' (Next '' @ str_int TIME_WINDOW_MINUTES @ '' Minutes):'' @ [CHR 0x0A]"

text \<open>The body of \<^verbatim>\<open>while True\<close>, once per element of the list.\<close>

fun poll_loop ::
  "(int \<Rightarrow> int) \<Rightarrow> (string \<Rightarrow> py_error + feed_message) \<Rightarrow> routes_mapping \<Rightarrow> stops_mapping
     \<Rightarrow> cycle list \<Rightarrow> event list \<times> outcome" where
  "poll_loop tz parse routes_mapping selected_stops [] = ([], Running)"
| "poll_loop tz parse routes_mapping selected_stops (c # rest) =
     (let current_time = now c;
          fetching = [Print (CHR 0x0A # ''Fetching real-time data...'')]
      in case fetch_gtfs_rt_feed (\<lambda>url. response c) parse URL of
           Inl e \<Rightarrow> (fetching, Raised e)
         | Inr feed \<Rightarrow>
             (case get_incoming_trams tz feed routes_mapping selected_stops current_time of
                Inl e \<Rightarrow> (fetching, Raised e)
              | Inr trams \<Rightarrow>
                  (let shown = fetching
                         @ [Print [CHR 0x1B, CHR ''['', CHR ''H'', CHR 0x1B, CHR ''['', CHR ''J''],
                            Print (board_header selected_stops)]
                         @ (if trams \<noteq> [] then display_real_time_board trams
                            else [Print ''No trams arriving within the next 5 minutes.''])
                         @ [Sleep 30];
                       (later, result) = poll_loop tz parse routes_mapping selected_stops rest
                   in (shown @ later, result))))"

definition input_prompt :: string where
  "input_prompt = ''Enter a stop name to search (e.g., Zsigmond t''
     @ [CHR 0xC3, CHR 0x83, CHR 0xC2, CHR 0xA9] @ ''r): ''"

definition main :: "env \<Rightarrow> event list \<times> outcome" where
  "main w =
     (let loading = [Print (''Loading BKK GTFS static data...'' @ [CHR 0x0A])]
      in case static_files w of
           Inl e \<Rightarrow> (loading, Raised e)
         | Inr (routes_mapping, stops_mapping) \<Rightarrow>
             (case stdin w of
                [] \<Rightarrow> (loading @ [Input input_prompt], Raised EOFError)
              | line # unread \<Rightarrow>
                  (let stop_name_query = str_strip w line;
                       selected_stops = find_stops_by_name (str_lower w) stops_mapping stop_name_query
                   in if selected_stops = []
                      then (loading @ [Input input_prompt,
                              Print (''No stops found matching '' @ [CHR 0x27] @ stop_name_query
                                       @ [CHR 0x27] @ ''. Please try again.'')],
                            Returned)
                      else
                        (let found = Print (CHR 0x0A # ''Found '' @ str_int (int (length selected_stops))
                                              @ '' stop(s) for '' @ [CHR 0x27] @ stop_name_query
                                              @ [CHR 0x27] @ '':'')
                               # map (\<lambda>(stop_id, details).
                                        Print (''- Stop ID: '' @ stop_id @ '', Stop Name: '' @ stop_name details))
                                     selected_stops;
                             (later, result) = poll_loop (utcoffset w) (ParseFromString w)
                                                 routes_mapping selected_stops (cycles w)
                         in (loading @ [Input input_prompt] @ found @ later, result)))))"

section \<open>Auxiliary notions for the properties\<close>

text \<open>The dicts one stop-time event contributes to the result, none when the step raises.\<close>

definition emitted ::
  "(int \<Rightarrow> int) \<Rightarrow> routes_mapping \<Rightarrow> stops_mapping \<Rightarrow> datetime \<Rightarrow> trip_update \<Rightarrow> stop_time_update
     \<Rightarrow> tram set" where
  "emitted tz routes sel t tu st =
     (case stop_time_step tz routes sel t tu st of Inl e \<Rightarrow> {} | Inr new \<Rightarrow> set new)"

text \<open>The text \<^verbatim>\<open>H:MM:SS\<close> of a duration of \<open>s\<close> whole seconds.\<close>

definition hms :: "nat \<Rightarrow> string" where
  "hms s = digits (s div 3600) @ '':'' @ fmt_02d (s div 60 mod 60) @ '':'' @ fmt_02d (s mod 60)"

section \<open>A small catalog and feed\<close>

text \<open>
  Concrete data for evaluating the functions: two stops, two routes, the zone UTC+1, and
  14 November 2023, 23:13:20 local time (POSIX 1700000000) as the current time.
\<close>

definition utc_plus_1 :: "int \<Rightarrow> int" where
  "utc_plus_1 ts = 3600"

definition zsigmond_ter :: string where
  "zsigmond_ter = ''Zsigmond t'' @ [CHR 0xC3, CHR 0xA9] @ ''r''"

definition demo_stops :: stops_mapping where
  "demo_stops =
     [(''F00947'', \<lparr> stop_name = zsigmond_ter, other_attributes = [] \<rparr>),
      (''F01080'', \<lparr> stop_name = ''Margit hid'', other_attributes = [] \<rparr>)]"

definition demo_selected :: stops_mapping where
  "demo_selected = [(''F00947'', \<lparr> stop_name = zsigmond_ter, other_attributes = [] \<rparr>)]"

definition demo_routes :: routes_mapping where
  "demo_routes = [(''3170'', ''17''), (''3190'', ''19'')]"

definition demo_now :: datetime where
  "demo_now = 1700003600000000"

definition at_stop :: "string \<Rightarrow> int option \<Rightarrow> stop_time_update" where
  "at_stop sid ts = \<lparr> stop_id = sid, arrival = ts \<rparr>"

definition trip :: "string \<Rightarrow> stop_time_update list \<Rightarrow> feed_entity" where
  "trip rid sts = \<lparr> entity_trip_update = Some \<lparr> trip_route_id = rid, stop_time_updates = sts \<rparr> \<rparr>"

text \<open>Arrivals at a selected stop exactly now, at the horizon, one second beyond it and one second ago.\<close>

definition boundary_feed :: feed_message where
  "boundary_feed = \<lparr> entity = [trip ''3170''
      [at_stop ''F00947'' (Some 1700000000), at_stop ''F00947'' (Some 1700000300),
       at_stop ''F00947'' (Some 1700000301), at_stop ''F00947'' (Some 1699999999)]] \<rparr>"

definition boundary_trams :: "tram list" where
  "boundary_trams =
     [\<lparr> tram_number = ''17'', route_id = ''3170'', tram_stop_name = zsigmond_ter,
             arrival_time = ''23:13:20'', time_to_arrival = ''0:00:00'' \<rparr>,
          \<lparr> tram_number = ''17'', route_id = ''3170'', tram_stop_name = zsigmond_ter,
             arrival_time = ''23:18:20'', time_to_arrival = ''0:05:00'' \<rparr>]"

text \<open>
  Three arrivals in the window: on a trip without a route id, on a route missing from
  \<open>demo_routes\<close>, and on a known route after an event without a prediction and one at a
  stop that is not selected.
\<close>

definition mixed_feed :: feed_message where
  "mixed_feed = \<lparr> entity =
     [trip '''' [at_stop ''F00947'' (Some 1700000030)],
      trip ''9999'' [at_stop ''F00947'' (Some 1700000120)],
      \<lparr> entity_trip_update = None \<rparr>,
      trip ''3190'' [at_stop ''F00947'' None, at_stop ''F01080'' (Some 1700000060),
                     at_stop ''F00947'' (Some 1700000240)]] \<rparr>"

definition mixed_trams :: "tram list" where
  "mixed_trams =
     [\<lparr> tram_number = ''Unknown'', route_id = ''Unknown Route'', tram_stop_name = zsigmond_ter,
        arrival_time = ''23:13:50'', time_to_arrival = ''0:00:30'' \<rparr>,
      \<lparr> tram_number = ''Unknown'', route_id = ''9999'', tram_stop_name = zsigmond_ter,
        arrival_time = ''23:15:20'', time_to_arrival = ''0:02:00'' \<rparr>,
      \<lparr> tram_number = ''19'', route_id = ''3190'', tram_stop_name = zsigmond_ter,
        arrival_time = ''23:17:20'', time_to_arrival = ''0:04:00'' \<rparr>]"

text \<open>Arrivals in two minutes, in thirty seconds and in four minutes, in this order in the feed.\<close>

definition board_feed :: feed_message where
  "board_feed = \<lparr> entity =
     [trip ''3170'' [at_stop ''F00947'' (Some 1700000120)],
      trip ''3190'' [at_stop ''F00947'' (Some 1700000030)],
      trip ''3170'' [at_stop ''F00947'' (Some 1700000240)]] \<rparr>"

definition board_trams :: "tram list" where
  "board_trams =
     [\<lparr> tram_number = ''17'', route_id = ''3170'', tram_stop_name = zsigmond_ter,
        arrival_time = ''23:15:20'', time_to_arrival = ''0:02:00'' \<rparr>,
      \<lparr> tram_number = ''19'', route_id = ''3190'', tram_stop_name = zsigmond_ter,
        arrival_time = ''23:13:50'', time_to_arrival = ''0:00:30'' \<rparr>,
      \<lparr> tram_number = ''17'', route_id = ''3170'', tram_stop_name = zsigmond_ter,
        arrival_time = ''23:17:20'', time_to_arrival = ''0:04:00'' \<rparr>]"

text \<open>
  A stand-in for \<^verbatim>\<open>str.strip\<close> (ASCII white space only) and for the protobuf decoder:
  it accepts one buffer, a feed message with a header and no entity, and rejects every
  other one as the decoder rejects a malformed buffer.
\<close>

definition ascii_strip :: "string \<Rightarrow> string" where
  "ascii_strip s =
     (let white = (\<lambda>c. c \<in> set [CHR '' '', CHR 0x09, CHR 0x0A, CHR 0x0B, CHR 0x0C, CHR 0x0D])
      in rev (dropWhile white (rev (dropWhile white s))))"

definition empty_feed_bytes :: string where
  "empty_feed_bytes = [CHR 0x0A, CHR 0x05, CHR 0x0A, CHR 0x03, CHR ''2'', CHR ''.'', CHR ''0'']"

definition demo_decoder :: "string \<Rightarrow> py_error + feed_message" where
  "demo_decoder bytes = (if bytes = empty_feed_bytes then Inr \<lparr> entity = [] \<rparr> else Inl DecodeError)"

text \<open>A session whose first query matches no stop, with a matching query waiting on standard input.\<close>

definition retry_env :: env where
  "retry_env =
     \<lparr> str_lower = ascii_lower, str_strip = ascii_strip, utcoffset = utc_plus_1,
       ParseFromString = demo_decoder,
       static_files = Inr (demo_routes, demo_stops),
       stdin = ['' Nowhere '', ''zsigmond''],
       cycles = [\<lparr> now = demo_now, response = Inr empty_feed_bytes \<rparr>] \<rparr>"

text \<open>A session whose first poll receives a malformed buffer and whose second would receive a good one.\<close>

definition crash_env :: env where
  "crash_env =
     \<lparr> str_lower = ascii_lower, str_strip = ascii_strip, utcoffset = utc_plus_1,
       ParseFromString = demo_decoder,
       static_files = Inr (demo_routes, demo_stops),
       stdin = [''zsigmond''],
       cycles = [\<lparr> now = demo_now, response = Inr [CHR 0xFF] \<rparr>,
                 \<lparr> now = demo_now + 30000000, response = Inr empty_feed_bytes \<rparr>] \<rparr>"

text \<open>The stop-time events of a feed, each with its trip update, in the order of the feed.\<close>

definition feed_events :: "feed_message \<Rightarrow> (trip_update \<times> stop_time_update) list" where
  "feed_events feed =
     concat (map (\<lambda>e. case entity_trip_update e of
                          None \<Rightarrow> []
                        | Some tu \<Rightarrow> map (Pair tu) (stop_time_updates tu))
               (entity feed))"

text \<open>
  Two more zones: UTC, and Central European Time with the summer time that starts on
  31 March 2024 at 01:00 UTC.
\<close>

definition utc_zone :: "int \<Rightarrow> int" where
  "utc_zone ts = 0"

definition central_european :: "int \<Rightarrow> int" where
  "central_european ts = (if ts < 1711846800 then 3600 else 7200)"

text \<open>A session whose second poll receives a malformed buffer, between two good ones.\<close>

definition late_crash_env :: env where
  "late_crash_env =
     \<lparr> str_lower = ascii_lower, str_strip = ascii_strip, utcoffset = utc_plus_1,
       ParseFromString = demo_decoder,
       static_files = Inr (demo_routes, demo_stops),
       stdin = [''zsigmond''],
       cycles = [\<lparr> now = demo_now, response = Inr empty_feed_bytes \<rparr>,
                 \<lparr> now = demo_now + 30000000, response = Inr [CHR 0xFF] \<rparr>,
                 \<lparr> now = demo_now + 60000000, response = Inr empty_feed_bytes \<rparr>] \<rparr>"

section \<open>Properties\<close>

subsection \<open>Decimal text\<close>

lemma digit_char_numeral:
  "digit_char 0 = CHR ''0''" "digit_char 1 = CHR ''1''" "digit_char 2 = CHR ''2''"
  "digit_char 3 = CHR ''3''" "digit_char 4 = CHR ''4''" "digit_char 5 = CHR ''5''"
  "digit_char 6 = CHR ''6''" "digit_char 7 = CHR ''7''" "digit_char 8 = CHR ''8''"
  "digit_char 9 = CHR ''9''" "digit_char (Suc 0) = CHR ''1''"
  by code_simp+

lemma of_char_digit_char: "n < 10 \<Longrightarrow> of_char (digit_char n) = 48 + n"
  by (simp add: digit_char_def)

lemma digit_char_le: "a < 10 \<Longrightarrow> b < 10 \<Longrightarrow> digit_char a \<le> digit_char b \<longleftrightarrow> a \<le> b"
  by (simp add: less_eq_char_def of_char_digit_char)

lemma digit_char_less: "a < 10 \<Longrightarrow> b < 10 \<Longrightarrow> digit_char a < digit_char b \<longleftrightarrow> a < b"
  by (simp add: less_char_def of_char_digit_char)

lemma digit_char_eq: "a < 10 \<Longrightarrow> b < 10 \<Longrightarrow> digit_char a = digit_char b \<longleftrightarrow> a = b"
  by (metis digit_char_le order_antisym order_refl)

lemma digit_char_not_dot: "n < 10 \<Longrightarrow> digit_char n \<noteq> CHR ''.''"
proof
  assume "n < 10" and "digit_char n = CHR ''.''"
  then have "(of_char (digit_char n) :: nat) = of_char (CHR ''.'')" by simp
  with \<open>n < 10\<close> show False by (simp add: of_char_digit_char)
qed

lemma digits_lt10: "n < 10 \<Longrightarrow> digits n = [digit_char n]"
  by (subst digits.simps) simp

lemma digits_lt100: "10 \<le> n \<Longrightarrow> n < 100 \<Longrightarrow> digits n = [digit_char (n div 10), digit_char (n mod 10)]"
  by (subst digits.simps) (simp add: digits_lt10)

lemma fmt_02d_lt100: "n < 100 \<Longrightarrow> fmt_02d n = [digit_char (n div 10), digit_char (n mod 10)]"
proof (cases "n < 10")
  case True
  then show ?thesis by (simp add: fmt_02d_def zero_pad_def digits_lt10 digit_char_numeral)
next
  case False
  assume "n < 100"
  with False show ?thesis by (simp add: fmt_02d_def zero_pad_def digits_lt100)
qed

text \<open>The text of a duration of \<open>s\<close> whole seconds, below ten hours.\<close>

lemma hms_no_dot:
  assumes "s < 36000"
  shows "\<forall>c \<in> set (digits (s div 3600) @ '':'' @ fmt_02d (s div 60 mod 60) @ '':'' @ fmt_02d (s mod 60)). c \<noteq> CHR ''.''"
proof -
  from assms have h: "s div 3600 < 10" by simp
  have m: "s div 60 mod 60 < 100" "s mod 60 < 100" by simp_all
  have d: "s div 60 mod 60 div 10 < 10" "s mod 60 div 10 < 10" by simp_all
  show ?thesis
    by (simp add: digits_lt10 [OF h] fmt_02d_lt100 [OF m(1)] fmt_02d_lt100 [OF m(2)]
        digit_char_not_dot h d)
qed

lemma time_to_arrival_text:
  assumes "0 \<le> d" and "d < 36000000000"
  shows "split_dot_first (timedelta_str d) =
           digits (nat (d div 1000000) div 3600) @ '':''
             @ fmt_02d (nat (d div 1000000) div 60 mod 60) @ '':''
             @ fmt_02d (nat (d div 1000000) mod 60)"
proof -
  let ?s = "nat (d div 1000000)"
  let ?txt = "digits (?s div 3600) @ '':'' @ fmt_02d (?s div 60 mod 60) @ '':'' @ fmt_02d (?s mod 60)"
  from assms have days: "d div 86400000000 = 0" and rest: "d mod 86400000000 = d"
    by simp_all
  from assms have "?s < 36000" by simp
  then have nodot: "\<forall>c \<in> set ?txt. c \<noteq> CHR ''.''" by (rule hms_no_dot)
  have "timedelta_str d = (if nat (d mod 1000000) \<noteq> 0 then ?txt @ ''.'' @ fmt_06d (nat (d mod 1000000)) else ?txt)"
    by (simp add: timedelta_str_def Let_def days rest)
  moreover have "takeWhile (\<lambda>c. c \<noteq> CHR ''.'') (?txt @ ''.'' @ fmt_06d (nat (d mod 1000000))) = ?txt"
    using nodot by (simp add: takeWhile_append2)
  moreover have "takeWhile (\<lambda>c. c \<noteq> CHR ''.'') ?txt = ?txt"
    using nodot by (simp add: takeWhile_eq_all_conv)
  ultimately show ?thesis by (simp add: split_dot_first_def)
qed

lemma split5:
  fixes a :: nat
  shows "a = 3600 * (a div 3600) + 600 * (a div 60 mod 60 div 10) + 60 * (a div 60 mod 60 mod 10)
            + 10 * (a mod 60 div 10) + a mod 60 mod 10"
proof -
  have 1: "a = 60 * (a div 60) + a mod 60" by simp
  have "a div (60 * 60) = a div 60 div 60" by (rule div_mult2_eq)
  then have h: "a div 3600 = a div 60 div 60" by simp
  have 2: "a div 60 = 60 * (a div 3600) + a div 60 mod 60"
    unfolding h by simp
  have 3: "a div 60 mod 60 = 10 * (a div 60 mod 60 div 10) + a div 60 mod 60 mod 10" by simp
  have 4: "a mod 60 = 10 * (a mod 60 div 10) + a mod 60 mod 10" by simp
  from 1 2 3 4 show ?thesis by linarith
qed

lemma lex5:
  fixes ha :: nat
  assumes "mta < 6" "mua < 10" "cta < 6" "cua < 10" "mtb < 6" "mub < 10" "ctb < 6" "cub < 10"
  shows "(ha < hb \<or> ha = hb \<and> (mta < mtb \<or> mta = mtb \<and> (mua < mub \<or> mua = mub \<and>
            (cta < ctb \<or> cta = ctb \<and> (cua \<le> cub)))))
         \<longleftrightarrow> 3600 * ha + 600 * mta + 60 * mua + 10 * cta + cua \<le> 3600 * hb + 600 * mtb + 60 * mub + 10 * ctb + cub"
  using assms by linarith

lemma hms_chars:
  assumes "a < 36000"
  shows "hms a = [digit_char (a div 3600), CHR '':'', digit_char (a div 60 mod 60 div 10),
                  digit_char (a div 60 mod 60 mod 10), CHR '':'', digit_char (a mod 60 div 10),
                  digit_char (a mod 60 mod 10)]"
proof -
  from assms have h: "a div 3600 < 10" by simp
  have m: "a div 60 mod 60 < 100" "a mod 60 < 100" by simp_all
  show ?thesis
    by (simp add: hms_def digits_lt10 [OF h] fmt_02d_lt100 [OF m(1)] fmt_02d_lt100 [OF m(2)])
qed

lemma hms_le_iff:
  assumes "a < 36000" and "b < 36000"
  shows "hms a \<le> hms b \<longleftrightarrow> a \<le> b"
proof -
  define ha mta mua cta cua where "ha = a div 3600" and "mta = a div 60 mod 60 div 10"
    and "mua = a div 60 mod 60 mod 10" and "cta = a mod 60 div 10" and "cua = a mod 60 mod 10"
  define hb mtb mub ctb cub where "hb = b div 3600" and "mtb = b div 60 mod 60 div 10"
    and "mub = b div 60 mod 60 mod 10" and "ctb = b mod 60 div 10" and "cub = b mod 60 mod 10"
  have ba: "ha < 10" "mta < 10" "mua < 10" "cta < 10" "cua < 10" "mta < 6" "cta < 6"
    using assms by (simp_all add: ha_def mta_def mua_def cta_def cua_def)
  have bb: "hb < 10" "mtb < 10" "mub < 10" "ctb < 10" "cub < 10" "mtb < 6" "ctb < 6"
    using assms by (simp_all add: hb_def mtb_def mub_def ctb_def cub_def)
  have ea: "a = 3600 * ha + 600 * mta + 60 * mua + 10 * cta + cua"
    unfolding ha_def mta_def mua_def cta_def cua_def by (rule split5)
  have eb: "b = 3600 * hb + 600 * mtb + 60 * mub + 10 * ctb + cub"
    unfolding hb_def mtb_def mub_def ctb_def cub_def by (rule split5)
  have ta: "hms a = [digit_char ha, CHR '':'', digit_char mta, digit_char mua, CHR '':'', digit_char cta, digit_char cua]"
    unfolding ha_def mta_def mua_def cta_def cua_def using assms(1) by (rule hms_chars)
  have tb: "hms b = [digit_char hb, CHR '':'', digit_char mtb, digit_char mub, CHR '':'', digit_char ctb, digit_char cub]"
    unfolding hb_def mtb_def mub_def ctb_def cub_def using assms(2) by (rule hms_chars)
  have "hms a \<le> hms b \<longleftrightarrow>
          ha < hb \<or> ha = hb \<and> (mta < mtb \<or> mta = mtb \<and> (mua < mub \<or> mua = mub \<and>
            (cta < ctb \<or> cta = ctb \<and> (cua \<le> cub))))"
    unfolding ta tb using ba bb by (auto simp: digit_char_less digit_char_eq)
  also have "\<dots> \<longleftrightarrow> 3600 * ha + 600 * mta + 60 * mua + 10 * cta + cua
                        \<le> 3600 * hb + 600 * mtb + 60 * mub + 10 * ctb + cub"
    using ba(6,3,7,5) bb(6,3,7,5) by (rule lex5)
  also have "\<dots> \<longleftrightarrow> a \<le> b"
    using ea eb by simp
  finally show ?thesis .
qed

lemma time_to_arrival_hms:
  assumes "0 \<le> d" and "d < 36000000000"
  shows "split_dot_first (timedelta_str d) = hms (nat (d div 1000000))"
  using assms by (simp add: time_to_arrival_text hms_def)

subsection \<open>The extraction loops\<close>

lemma stop_time_loop_set:
  "stop_time_loop tz routes sel t tu sts acc = Inr out \<Longrightarrow>
     set out = set acc \<union> (\<Union>st \<in> set sts. emitted tz routes sel t tu st)"
  by (induction sts arbitrary: acc) (auto simp: emitted_def split: sum.splits)

lemma entity_loop_set:
  "entity_loop tz routes sel t es acc = Inr out \<Longrightarrow>
     set out = set acc \<union>
       (\<Union>e \<in> set es. case entity_trip_update e of None \<Rightarrow> {}
          | Some tu \<Rightarrow> (\<Union>st \<in> set (stop_time_updates tu). emitted tz routes sel t tu st))"
proof (induction es arbitrary: acc)
  case Nil
  then show ?case by simp
next
  case (Cons e es)
  show ?case
  proof (cases "entity_trip_update e")
    case None
    with Cons show ?thesis by simp
  next
    case (Some tu)
    with Cons.prems obtain mid where
      mid: "stop_time_loop tz routes sel t tu (stop_time_updates tu) acc = Inr mid"
      and rest: "entity_loop tz routes sel t es mid = Inr out"
      by (auto split: sum.splits)
    from stop_time_loop_set [OF mid] Cons.IH [OF rest] Some show ?thesis
      by auto
  qed
qed

lemma stop_time_step_cases:
  "stop_time_step tz routes sel t tu st = Inr new \<Longrightarrow> r \<in> set new \<Longrightarrow>
     \<exists>details ts at. map_of sel (stop_id st) = Some details \<and> arrival st = Some ts
        \<and> fromtimestamp tz ts = Inr at
        \<and> 0 \<le> at - t \<and> at - t \<le> timedelta_minutes TIME_WINDOW_MINUTES
        \<and> new = [r]
        \<and> r = \<lparr> tram_number = (case map_of routes (if trip_route_id tu \<noteq> '''' then trip_route_id tu else ''Unknown Route'') of Some n \<Rightarrow> n | None \<Rightarrow> ''Unknown''),
                 route_id = (if trip_route_id tu \<noteq> '''' then trip_route_id tu else ''Unknown Route''),
                 tram_stop_name = stop_name details,
                 arrival_time = strftime_HMS at,
                 time_to_arrival = split_dot_first (timedelta_str (at - t)) \<rparr>"
  by (auto simp: stop_time_step_def Let_def split: option.splits sum.splits if_splits)

lemma stop_time_step_retained:
  "map_of sel (stop_id st) = Some details \<Longrightarrow> arrival st = Some ts \<Longrightarrow>
   fromtimestamp tz ts = Inr at \<Longrightarrow> 0 \<le> at - t \<Longrightarrow> at - t \<le> timedelta_minutes TIME_WINDOW_MINUTES \<Longrightarrow>
   stop_time_step tz routes sel t tu st =
     Inr [\<lparr> tram_number = (case map_of routes (if trip_route_id tu \<noteq> '''' then trip_route_id tu else ''Unknown Route'') of Some n \<Rightarrow> n | None \<Rightarrow> ''Unknown''),
                 route_id = (if trip_route_id tu \<noteq> '''' then trip_route_id tu else ''Unknown Route''),
                 tram_stop_name = stop_name details,
                 arrival_time = strftime_HMS at,
                 time_to_arrival = split_dot_first (timedelta_str (at - t)) \<rparr>]"
  by (simp add: stop_time_step_def Let_def)

lemma get_incoming_trams_set:
  "get_incoming_trams tz feed routes sel t = Inr trams \<Longrightarrow>
     set trams = (\<Union>e \<in> set (entity feed). case entity_trip_update e of None \<Rightarrow> {}
          | Some tu \<Rightarrow> (\<Union>st \<in> set (stop_time_updates tu). emitted tz routes sel t tu st))"
  by (simp add: get_incoming_trams_def entity_loop_set)

lemma get_incoming_trams_origin:
  assumes "get_incoming_trams tz feed routes sel t = Inr trams" and "r \<in> set trams"
  shows "\<exists>e tu st new. e \<in> set (entity feed) \<and> entity_trip_update e = Some tu
           \<and> st \<in> set (stop_time_updates tu)
           \<and> stop_time_step tz routes sel t tu st = Inr new \<and> r \<in> set new"
proof -
  from assms obtain e where e: "e \<in> set (entity feed)"
    and r: "r \<in> (case entity_trip_update e of None \<Rightarrow> {}
          | Some tu \<Rightarrow> (\<Union>st \<in> set (stop_time_updates tu). emitted tz routes sel t tu st))"
    by (auto simp: get_incoming_trams_set)
  from r obtain tu where tu: "entity_trip_update e = Some tu"
    and "r \<in> (\<Union>st \<in> set (stop_time_updates tu). emitted tz routes sel t tu st)"
    by (cases "entity_trip_update e") auto
  then obtain st where st: "st \<in> set (stop_time_updates tu)" and "r \<in> emitted tz routes sel t tu st"
    by auto
  then obtain new where "stop_time_step tz routes sel t tu st = Inr new" "r \<in> set new"
    by (auto simp: emitted_def split: sum.splits)
  with e tu st show ?thesis by blast
qed

lemma get_incoming_trams_member:
  assumes "get_incoming_trams tz feed routes sel t = Inr trams"
    and "e \<in> set (entity feed)" and "entity_trip_update e = Some tu"
    and "st \<in> set (stop_time_updates tu)"
    and "stop_time_step tz routes sel t tu st = Inr new"
  shows "set new \<subseteq> set trams"
proof
  fix r assume "r \<in> set new"
  with assms(5) have "r \<in> emitted tz routes sel t tu st"
    by (simp add: emitted_def)
  with assms(4) have "r \<in> (\<Union>st \<in> set (stop_time_updates tu). emitted tz routes sel t tu st)"
    by blast
  with assms(3) have "r \<in> (case entity_trip_update e of None \<Rightarrow> {}
          | Some tu \<Rightarrow> (\<Union>st \<in> set (stop_time_updates tu). emitted tz routes sel t tu st))"
    by simp
  with assms(2) show "r \<in> set trams"
    unfolding get_incoming_trams_set [OF assms(1)] by blast
qed

text \<open>
  C1: every dict returned by \<open>get_incoming_trams\<close> comes from a stop-time event whose
  time to arrival \<open>fromtimestamp ts - current_time\<close> lies between zero and the five-minute
  horizon, and its \<open>time_to_arrival\<close> is the text of that duration; an event at a selected
  stop whose time to arrival is exactly zero or exactly the horizon is kept.
\<close>

theorem arrival_within_horizon:
  "(get_incoming_trams tz feed routes sel t = Inr trams \<and> r \<in> set trams \<longrightarrow>
      (\<exists>e tu st ts at. e \<in> set (entity feed) \<and> entity_trip_update e = Some tu
          \<and> st \<in> set (stop_time_updates tu) \<and> arrival st = Some ts
          \<and> fromtimestamp tz ts = Inr at
          \<and> 0 \<le> at - t \<and> at - t \<le> timedelta_minutes TIME_WINDOW_MINUTES
          \<and> time_to_arrival r = split_dot_first (timedelta_str (at - t))))
   \<and> (get_incoming_trams tz feed routes sel t = Inr trams
        \<and> e' \<in> set (entity feed) \<and> entity_trip_update e' = Some tu'
        \<and> st' \<in> set (stop_time_updates tu') \<and> map_of sel (stop_id st') = Some details
        \<and> arrival st' = Some ts' \<and> fromtimestamp tz ts' = Inr at'
        \<and> (at' - t = 0 \<or> at' - t = timedelta_minutes TIME_WINDOW_MINUTES) \<longrightarrow>
      (\<exists>r'. r' \<in> set trams \<and> time_to_arrival r' = split_dot_first (timedelta_str (at' - t))
          \<and> arrival_time r' = strftime_HMS at' \<and> tram_stop_name r' = stop_name details))"
proof (intro conjI impI)
  assume a: "get_incoming_trams tz feed routes sel t = Inr trams \<and> r \<in> set trams"
  then obtain e tu st new where o: "e \<in> set (entity feed)" "entity_trip_update e = Some tu"
    "st \<in> set (stop_time_updates tu)" "stop_time_step tz routes sel t tu st = Inr new" "r \<in> set new"
    using get_incoming_trams_origin by blast
  from stop_time_step_cases [OF o(4,5)] obtain details ts at where
    "arrival st = Some ts" "fromtimestamp tz ts = Inr at" "0 \<le> at - t"
    "at - t \<le> timedelta_minutes TIME_WINDOW_MINUTES"
    "time_to_arrival r = split_dot_first (timedelta_str (at - t))"
    by auto
  with o(1-3) show "\<exists>e tu st ts at. e \<in> set (entity feed) \<and> entity_trip_update e = Some tu
          \<and> st \<in> set (stop_time_updates tu) \<and> arrival st = Some ts
          \<and> fromtimestamp tz ts = Inr at
          \<and> 0 \<le> at - t \<and> at - t \<le> timedelta_minutes TIME_WINDOW_MINUTES
          \<and> time_to_arrival r = split_dot_first (timedelta_str (at - t))"
    by blast
next
  assume b: "get_incoming_trams tz feed routes sel t = Inr trams
        \<and> e' \<in> set (entity feed) \<and> entity_trip_update e' = Some tu'
        \<and> st' \<in> set (stop_time_updates tu') \<and> map_of sel (stop_id st') = Some details
        \<and> arrival st' = Some ts' \<and> fromtimestamp tz ts' = Inr at'
        \<and> (at' - t = 0 \<or> at' - t = timedelta_minutes TIME_WINDOW_MINUTES)"
  then have w: "0 \<le> at' - t" "at' - t \<le> timedelta_minutes TIME_WINDOW_MINUTES"
    by (auto simp: timedelta_minutes_def TIME_WINDOW_MINUTES_def)
  from b have s: "map_of sel (stop_id st') = Some details" "arrival st' = Some ts'"
    "fromtimestamp tz ts' = Inr at'" by simp_all
  note step = stop_time_step_retained [OF s w, of routes tu']
  from b have "get_incoming_trams tz feed routes sel t = Inr trams" "e' \<in> set (entity feed)"
    "entity_trip_update e' = Some tu'" "st' \<in> set (stop_time_updates tu')" by simp_all
  from get_incoming_trams_member [OF this step]
  obtain r' where "r' \<in> set trams"
    and "time_to_arrival r' = split_dot_first (timedelta_str (at' - t))"
    and "arrival_time r' = strftime_HMS at'" and "tram_stop_name r' = stop_name details"
    by force
  then show "\<exists>r'. r' \<in> set trams \<and> time_to_arrival r' = split_dot_first (timedelta_str (at' - t))
          \<and> arrival_time r' = strftime_HMS at' \<and> tram_stop_name r' = stop_name details"
    by blast
qed

subsection \<open>Evaluation on the small catalog\<close>

lemmas eval_text = strftime_HMS_def time_to_arrival_text fmt_02d_lt100 digits_lt10 digit_char_numeral

lemmas eval_extract = get_incoming_trams_def stop_time_step_def fromtimestamp_def
  timedelta_minutes_def TIME_WINDOW_MINUTES_def trip_def at_stop_def Let_def

lemmas eval_demo = demo_routes_def demo_selected_def demo_now_def utc_plus_1_def

lemma boundary_extraction:
  "get_incoming_trams utc_plus_1 boundary_feed demo_routes demo_selected demo_now = Inr boundary_trams"
  by (simp add: boundary_feed_def boundary_trams_def eval_demo eval_extract eval_text)

theorem arrival_within_horizon_witness:
  "get_incoming_trams utc_plus_1 boundary_feed demo_routes demo_selected demo_now = Inr boundary_trams
   \<and> (\<exists>e tu st ts at. e \<in> set (entity boundary_feed) \<and> entity_trip_update e = Some tu
          \<and> st \<in> set (stop_time_updates tu) \<and> arrival st = Some ts
          \<and> fromtimestamp utc_plus_1 ts = Inr at
          \<and> 0 \<le> at - demo_now \<and> at - demo_now \<le> timedelta_minutes TIME_WINDOW_MINUTES
          \<and> time_to_arrival (boundary_trams ! 1) = split_dot_first (timedelta_str (at - demo_now)))
   \<and> (\<exists>r'. r' \<in> set boundary_trams
          \<and> time_to_arrival r' = split_dot_first (timedelta_str (1700003600000000 - demo_now))
          \<and> arrival_time r' = strftime_HMS 1700003600000000
          \<and> tram_stop_name r' = zsigmond_ter)
   \<and> map time_to_arrival boundary_trams = [''0:00:00'', ''0:05:00'']"
proof -
  have mem: "boundary_trams ! 1 \<in> set boundary_trams"
    by (simp add: boundary_trams_def)
  have ev: "trip ''3170''
      [at_stop ''F00947'' (Some 1700000000), at_stop ''F00947'' (Some 1700000300),
       at_stop ''F00947'' (Some 1700000301), at_stop ''F00947'' (Some 1699999999)]
        \<in> set (entity boundary_feed)"
    by (simp add: boundary_feed_def)
  have sel: "map_of demo_selected (stop_id (at_stop ''F00947'' (Some 1700000000)))
               = Some \<lparr> stop_name = zsigmond_ter, other_attributes = [] \<rparr>"
    by (simp add: demo_selected_def at_stop_def)
  have ft: "fromtimestamp utc_plus_1 1700000000 = Inr 1700003600000000"
    by (simp add: fromtimestamp_def utc_plus_1_def)
  note inst = arrival_within_horizon [of utc_plus_1 boundary_feed demo_routes demo_selected demo_now
      boundary_trams "boundary_trams ! 1"
      "trip ''3170''
      [at_stop ''F00947'' (Some 1700000000), at_stop ''F00947'' (Some 1700000300),
       at_stop ''F00947'' (Some 1700000301), at_stop ''F00947'' (Some 1699999999)]"
      "\<lparr> trip_route_id = ''3170'', stop_time_updates = [at_stop ''F00947'' (Some 1700000000), at_stop ''F00947'' (Some 1700000300),
       at_stop ''F00947'' (Some 1700000301), at_stop ''F00947'' (Some 1699999999)] \<rparr>"
      "at_stop ''F00947'' (Some 1700000000)"
      "\<lparr> stop_name = zsigmond_ter, other_attributes = [] \<rparr>"
      1700000000 1700003600000000]
  have col: "map time_to_arrival boundary_trams = [''0:00:00'', ''0:05:00'']"
    by (simp add: boundary_trams_def)
  from inst boundary_extraction mem ev sel ft col show ?thesis
    by (simp add: trip_def at_stop_def demo_now_def)
qed

lemma mixed_extraction:
  "get_incoming_trams utc_plus_1 mixed_feed demo_routes demo_selected demo_now = Inr mixed_trams"
  by (simp add: mixed_feed_def mixed_trams_def eval_demo eval_extract eval_text)

subsection \<open>Skipped events\<close>

lemma stop_time_loop_skip:
  "stop_time_step tz routes sel t tu st = Inr [] \<Longrightarrow>
     stop_time_loop tz routes sel t tu (before @ st # after) acc =
     stop_time_loop tz routes sel t tu (before @ after) acc"
  by (induction before arbitrary: acc) (simp_all split: sum.splits)

text \<open>
  C6: a stop-time event without an arrival timestamp makes the loop body append nothing and
  raise nothing, and the loop over a trip's events gives the same result as the loop
  over the events without it, wherever it stands among them.
\<close>

theorem missing_arrival_skipped:
  "arrival st = None \<Longrightarrow>
     stop_time_step tz routes sel t tu st = Inr []
     \<and> stop_time_loop tz routes sel t tu (before @ st # after) acc =
       stop_time_loop tz routes sel t tu (before @ after) acc"
proof -
  assume "arrival st = None"
  then have "stop_time_step tz routes sel t tu st = Inr []"
    by (simp add: stop_time_step_def split: option.splits)
  then show ?thesis by (simp add: stop_time_loop_skip)
qed

theorem missing_arrival_skipped_witness:
  "arrival (at_stop ''F00947'' None) = None
   \<and> stop_time_step utc_plus_1 demo_routes demo_selected demo_now
        \<lparr> trip_route_id = ''3190'', stop_time_updates = [] \<rparr> (at_stop ''F00947'' None) = Inr []
   \<and> stop_time_loop utc_plus_1 demo_routes demo_selected demo_now
        \<lparr> trip_route_id = ''3190'', stop_time_updates = [] \<rparr>
        ([at_stop ''F00947'' (Some 1700000030)] @ at_stop ''F00947'' None # [at_stop ''F00947'' (Some 1700000240)]) []
     = stop_time_loop utc_plus_1 demo_routes demo_selected demo_now
        \<lparr> trip_route_id = ''3190'', stop_time_updates = [] \<rparr>
        ([at_stop ''F00947'' (Some 1700000030)] @ [at_stop ''F00947'' (Some 1700000240)]) []
   \<and> get_incoming_trams utc_plus_1 mixed_feed demo_routes demo_selected demo_now = Inr mixed_trams
   \<and> length mixed_trams = 3"
proof -
  have a: "arrival (at_stop ''F00947'' None) = None"
    by (simp add: at_stop_def)
  from missing_arrival_skipped [OF a, of utc_plus_1 demo_routes demo_selected demo_now
      "\<lparr> trip_route_id = ''3190'', stop_time_updates = [] \<rparr>"
      "[at_stop ''F00947'' (Some 1700000030)]" "[at_stop ''F00947'' (Some 1700000240)]" "[]"]
    a mixed_extraction
  show ?thesis by (simp add: mixed_trams_def)
qed

text \<open>
  C7: every dict returned comes from a stop-time event whose stop id is a key of
  \<open>selected_stops\<close>, and carries that stop's name; an event at any other stop id appends
  nothing, raises nothing and leaves the result of the loop as it is without the event.
\<close>

theorem records_only_for_selected_stops:
  "(get_incoming_trams tz feed routes sel t = Inr trams \<and> r \<in> set trams \<longrightarrow>
      (\<exists>e tu st details. e \<in> set (entity feed) \<and> entity_trip_update e = Some tu
          \<and> st \<in> set (stop_time_updates tu)
          \<and> stop_time_step tz routes sel t tu st = Inr [r]
          \<and> stop_id st \<in> fst ` set sel
          \<and> map_of sel (stop_id st) = Some details
          \<and> tram_stop_name r = stop_name details))
   \<and> (stop_id st' \<notin> fst ` set sel \<longrightarrow>
        stop_time_step tz routes sel t tu' st' = Inr []
        \<and> stop_time_loop tz routes sel t tu' (before @ st' # after) acc =
          stop_time_loop tz routes sel t tu' (before @ after) acc)"
proof (intro conjI impI)
  assume "get_incoming_trams tz feed routes sel t = Inr trams \<and> r \<in> set trams"
  then obtain e tu st new where o: "e \<in> set (entity feed)" "entity_trip_update e = Some tu"
    "st \<in> set (stop_time_updates tu)" "stop_time_step tz routes sel t tu st = Inr new" "r \<in> set new"
    using get_incoming_trams_origin by blast
  from stop_time_step_cases [OF o(4,5)] obtain details where
    d: "map_of sel (stop_id st) = Some details" "new = [r]" "tram_stop_name r = stop_name details"
    by auto
  from d(1) have "stop_id st \<in> fst ` set sel"
    by (metis map_of_eq_None_iff option.distinct(1))
  with o d show "\<exists>e tu st details. e \<in> set (entity feed) \<and> entity_trip_update e = Some tu
          \<and> st \<in> set (stop_time_updates tu)
          \<and> stop_time_step tz routes sel t tu st = Inr [r]
          \<and> stop_id st \<in> fst ` set sel
          \<and> map_of sel (stop_id st) = Some details
          \<and> tram_stop_name r = stop_name details"
    by blast
next
  assume "stop_id st' \<notin> fst ` set sel"
  then have "map_of sel (stop_id st') = None"
    by (simp add: map_of_eq_None_iff)
  then show s: "stop_time_step tz routes sel t tu' st' = Inr []"
    by (simp add: stop_time_step_def)
  then show "stop_time_loop tz routes sel t tu' (before @ st' # after) acc =
          stop_time_loop tz routes sel t tu' (before @ after) acc"
    by (rule stop_time_loop_skip)
qed

theorem records_only_for_selected_stops_witness:
  "get_incoming_trams utc_plus_1 mixed_feed demo_routes demo_selected demo_now = Inr mixed_trams
   \<and> mixed_trams ! 2 \<in> set mixed_trams
   \<and> (\<exists>e tu st details. e \<in> set (entity mixed_feed) \<and> entity_trip_update e = Some tu
          \<and> st \<in> set (stop_time_updates tu)
          \<and> stop_time_step utc_plus_1 demo_routes demo_selected demo_now tu st = Inr [mixed_trams ! 2]
          \<and> stop_id st \<in> fst ` set demo_selected
          \<and> map_of demo_selected (stop_id st) = Some details
          \<and> tram_stop_name (mixed_trams ! 2) = stop_name details)
   \<and> stop_id (at_stop ''F01080'' (Some 1700000060)) \<notin> fst ` set demo_selected
   \<and> stop_time_step utc_plus_1 demo_routes demo_selected demo_now
        \<lparr> trip_route_id = ''3190'', stop_time_updates = [] \<rparr> (at_stop ''F01080'' (Some 1700000060)) = Inr []
   \<and> stop_time_loop utc_plus_1 demo_routes demo_selected demo_now
        \<lparr> trip_route_id = ''3190'', stop_time_updates = [] \<rparr>
        ([at_stop ''F00947'' None] @ at_stop ''F01080'' (Some 1700000060) # [at_stop ''F00947'' (Some 1700000240)]) []
     = stop_time_loop utc_plus_1 demo_routes demo_selected demo_now
        \<lparr> trip_route_id = ''3190'', stop_time_updates = [] \<rparr>
        ([at_stop ''F00947'' None] @ [at_stop ''F00947'' (Some 1700000240)]) []"
proof -
  have mem: "mixed_trams ! 2 \<in> set mixed_trams"
    by (simp add: mixed_trams_def)
  have out: "stop_id (at_stop ''F01080'' (Some 1700000060)) \<notin> fst ` set demo_selected"
    by (simp add: at_stop_def demo_selected_def)
  from records_only_for_selected_stops [of utc_plus_1 mixed_feed demo_routes demo_selected demo_now
      mixed_trams "mixed_trams ! 2" "at_stop ''F01080'' (Some 1700000060)"
      "\<lparr> trip_route_id = ''3190'', stop_time_updates = [] \<rparr>"
      "[at_stop ''F00947'' None]" "[at_stop ''F00947'' (Some 1700000240)]" "[]"]
    mixed_extraction mem out
  show ?thesis by simp
qed

text \<open>
  C5: for an event that is kept, the loop body returns one dict and raises nothing, and the
  dict is in the result of the extraction. When the trip has no route id the dict's
  \<open>route_id\<close> is the text \<open>Unknown Route\<close> (and its label is what the catalog has under that
  key, \<open>Unknown\<close> when it has nothing); when the trip's route id is not in the catalog
  the label is \<open>Unknown\<close>.
\<close>

theorem unknown_route_label:
  assumes "e \<in> set (entity feed)" and "entity_trip_update e = Some tu"
    and "st \<in> set (stop_time_updates tu)"
    and "map_of sel (stop_id st) = Some details" and "arrival st = Some ts"
    and "fromtimestamp tz ts = Inr at"
    and "0 \<le> at - t" and "at - t \<le> timedelta_minutes TIME_WINDOW_MINUTES"
  shows "\<exists>r. stop_time_step tz routes sel t tu st = Inr [r]
           \<and> (\<forall>trams. get_incoming_trams tz feed routes sel t = Inr trams \<longrightarrow> r \<in> set trams)
           \<and> (trip_route_id tu = '''' \<longrightarrow>
                route_id r = ''Unknown Route''
                \<and> tram_number r = (case map_of routes ''Unknown Route'' of
                                     Some n \<Rightarrow> n | None \<Rightarrow> ''Unknown''))
           \<and> (trip_route_id tu \<noteq> '''' \<and> map_of routes (trip_route_id tu) = None \<longrightarrow>
                route_id r = trip_route_id tu \<and> tram_number r = ''Unknown'')"
proof -
  note step = stop_time_step_retained [OF assms(4-8), of routes tu]
  define r where "r = \<lparr> tram_number = (case map_of routes (if trip_route_id tu \<noteq> '''' then trip_route_id tu else ''Unknown Route'') of Some n \<Rightarrow> n | None \<Rightarrow> ''Unknown''),
                 route_id = (if trip_route_id tu \<noteq> '''' then trip_route_id tu else ''Unknown Route''),
                 tram_stop_name = stop_name details,
                 arrival_time = strftime_HMS at,
                 time_to_arrival = split_dot_first (timedelta_str (at - t)) \<rparr>"
  from step have 1: "stop_time_step tz routes sel t tu st = Inr [r]"
    by (simp add: r_def)
  have 2: "\<forall>trams. get_incoming_trams tz feed routes sel t = Inr trams \<longrightarrow> r \<in> set trams"
  proof (intro allI impI)
    fix trams assume "get_incoming_trams tz feed routes sel t = Inr trams"
    from get_incoming_trams_member [OF this assms(1-3) 1] show "r \<in> set trams" by simp
  qed
  have 3: "trip_route_id tu = '''' \<longrightarrow>
                route_id r = ''Unknown Route''
                \<and> tram_number r = (case map_of routes ''Unknown Route'' of
                                     Some n \<Rightarrow> n | None \<Rightarrow> ''Unknown'')"
    by (simp add: r_def)
  have 4: "trip_route_id tu \<noteq> '''' \<and> map_of routes (trip_route_id tu) = None \<longrightarrow>
                route_id r = trip_route_id tu \<and> tram_number r = ''Unknown''"
    by (simp add: r_def)
  from 1 2 3 4 show ?thesis by blast
qed

theorem unknown_route_label_witness:
  "get_incoming_trams utc_plus_1 mixed_feed demo_routes demo_selected demo_now = Inr mixed_trams
   \<and> (\<exists>r. stop_time_step utc_plus_1 demo_routes demo_selected demo_now
              \<lparr> trip_route_id = '''', stop_time_updates = [at_stop ''F00947'' (Some 1700000030)] \<rparr>
              (at_stop ''F00947'' (Some 1700000030)) = Inr [r]
          \<and> r \<in> set mixed_trams \<and> route_id r = ''Unknown Route'' \<and> tram_number r = ''Unknown'')
   \<and> (\<exists>r. stop_time_step utc_plus_1 demo_routes demo_selected demo_now
              \<lparr> trip_route_id = ''9999'', stop_time_updates = [at_stop ''F00947'' (Some 1700000120)] \<rparr>
              (at_stop ''F00947'' (Some 1700000120)) = Inr [r]
          \<and> r \<in> set mixed_trams \<and> route_id r = ''9999'' \<and> tram_number r = ''Unknown'')"
proof -
  have sel: "map_of demo_selected (stop_id (at_stop ''F00947'' ts))
               = Some \<lparr> stop_name = zsigmond_ter, other_attributes = [] \<rparr>" for ts
    by (simp add: demo_selected_def at_stop_def)
  have arr: "arrival (at_stop ''F00947'' (Some ts)) = Some ts" for ts
    by (simp add: at_stop_def)
  have lo: "(0::int) \<le> 1700003630000000 - demo_now" "(0::int) \<le> 1700003720000000 - demo_now"
    by (simp_all add: demo_now_def)
  have hi: "1700003630000000 - demo_now \<le> timedelta_minutes TIME_WINDOW_MINUTES"
    "1700003720000000 - demo_now \<le> timedelta_minutes TIME_WINDOW_MINUTES"
    by (simp_all add: demo_now_def timedelta_minutes_def TIME_WINDOW_MINUTES_def)
  have e1: "trip '''' [at_stop ''F00947'' (Some 1700000030)] \<in> set (entity mixed_feed)"
    and e2: "trip ''9999'' [at_stop ''F00947'' (Some 1700000120)] \<in> set (entity mixed_feed)"
    by (simp_all add: mixed_feed_def)
  have t1: "entity_trip_update (trip '''' [at_stop ''F00947'' (Some 1700000030)])
              = Some \<lparr> trip_route_id = '''', stop_time_updates = [at_stop ''F00947'' (Some 1700000030)] \<rparr>"
    and t2: "entity_trip_update (trip ''9999'' [at_stop ''F00947'' (Some 1700000120)])
              = Some \<lparr> trip_route_id = ''9999'', stop_time_updates = [at_stop ''F00947'' (Some 1700000120)] \<rparr>"
    by (simp_all add: trip_def)
  have s1: "at_stop ''F00947'' (Some 1700000030)
              \<in> set (stop_time_updates \<lparr> trip_route_id = '''', stop_time_updates = [at_stop ''F00947'' (Some 1700000030)] \<rparr>)"
    and s2: "at_stop ''F00947'' (Some 1700000120)
              \<in> set (stop_time_updates \<lparr> trip_route_id = ''9999'', stop_time_updates = [at_stop ''F00947'' (Some 1700000120)] \<rparr>)"
    by simp_all
  have f1: "fromtimestamp utc_plus_1 1700000030 = Inr 1700003630000000"
    and f2: "fromtimestamp utc_plus_1 1700000120 = Inr 1700003720000000"
    by (simp_all add: fromtimestamp_def utc_plus_1_def)
  from unknown_route_label [OF e1 t1 s1 sel arr f1 lo(1) hi(1), of demo_routes]
    unknown_route_label [OF e2 t2 s2 sel arr f2 lo(2) hi(2), of demo_routes]
    mixed_extraction
  show ?thesis by (simp add: demo_routes_def)
qed

subsection \<open>The board\<close>

lemma board_time_column:
  "map (\<lambda>row. row ! 3) (board_table trams) = map time_to_arrival (sorted_trams trams)"
  by (simp add: board_table_def)

lemma hms_of_whole_seconds:
  assumes "s < 36000"
  shows "split_dot_first (timedelta_str (int s * 1000000)) = hms s"
proof -
  from assms have "int s * 1000000 < 36000000000" by simp
  with time_to_arrival_hms [of "int s * 1000000"] show ?thesis by simp
qed

lemma sorted_by_text_sorted_by_seconds:
  assumes "\<forall>r \<in> set rs. f r < 36000 \<and> time_to_arrival r = hms (f r)"
    and "sorted (map time_to_arrival rs)"
  shows "sorted (map f rs)"
proof -
  from assms(2) have "sorted_wrt (\<lambda>x y. time_to_arrival x \<le> time_to_arrival y) rs"
    by (simp add: sorted_map)
  then have "sorted_wrt (\<lambda>x y. f x \<le> f y) rs"
  proof (rule sorted_wrt_mono_rel [rotated])
    fix x y assume "x \<in> set rs" "y \<in> set rs" "time_to_arrival x \<le> time_to_arrival y"
    with assms(1) have "f x < 36000" "f y < 36000" "hms (f x) \<le> hms (f y)" by auto
    then show "f x \<le> f y" by (simp add: hms_le_iff)
  qed
  then show ?thesis by (simp add: sorted_map)
qed

lemma extracted_time_to_arrival:
  assumes "get_incoming_trams tz feed routes sel t = Inr trams" and "r \<in> set trams"
  shows "\<exists>d. 0 \<le> d \<and> d < 36000000000 \<and> time_to_arrival r = split_dot_first (timedelta_str d)"
proof -
  from assms obtain e tu st new where "stop_time_step tz routes sel t tu st = Inr new" "r \<in> set new"
    using get_incoming_trams_origin by blast
  from stop_time_step_cases [OF this] obtain at where
    "0 \<le> at - t" "at - t \<le> timedelta_minutes TIME_WINDOW_MINUTES"
    "time_to_arrival r = split_dot_first (timedelta_str (at - t))"
    by auto
  moreover from this have "at - t < 36000000000"
    by (simp add: timedelta_minutes_def TIME_WINDOW_MINUTES_def)
  ultimately show ?thesis by blast
qed

text \<open>
  C3: the board shows the dicts it is given, each once, ordered by their \<open>time_to_arrival\<close>
  text. When every such text is that of a duration from zero to below ten hours (as for
  all dicts \<open>get_incoming_trams\<close> returns, which stay within five minutes), the time
  column is the text of a non-decreasing sequence of durations. The texts 00:02:00,
  00:00:30, 00:04:00 are shown as 00:00:30, 00:02:00, 00:04:00.
\<close>

theorem board_sorted_by_time_to_arrival:
  "display_real_time_board trams =
     [PrintTable [''Tram Number'', ''Stop Name'', ''Arrival Time'', ''Time to Arrival''] (board_table trams)]
   \<and> length (board_table trams) = length trams
   \<and> set (board_table trams) =
       (\<lambda>r. [tram_number r, tram_stop_name r, arrival_time r, time_to_arrival r]) ` set trams
   \<and> sorted (map (\<lambda>row. row ! 3) (board_table trams))
   \<and> ((\<forall>r \<in> set trams. \<exists>d. 0 \<le> d \<and> d < 36000000000
            \<and> time_to_arrival r = split_dot_first (timedelta_str d)) \<longrightarrow>
        (\<exists>ds. map (\<lambda>row. row ! 3) (board_table trams) = map (\<lambda>d. split_dot_first (timedelta_str d)) ds
           \<and> sorted ds \<and> (\<forall>d \<in> set ds. 0 \<le> d \<and> d < 36000000000)))
   \<and> map time_to_arrival
         (sorted_trams [a\<lparr>time_to_arrival := ''00:02:00''\<rparr>, b\<lparr>time_to_arrival := ''00:00:30''\<rparr>,
                        c\<lparr>time_to_arrival := ''00:04:00''\<rparr>])
       = [''00:00:30'', ''00:02:00'', ''00:04:00'']"
proof (intro conjI impI)
  show "display_real_time_board trams =
     [PrintTable [''Tram Number'', ''Stop Name'', ''Arrival Time'', ''Time to Arrival''] (board_table trams)]"
    by (simp add: display_real_time_board_def)
  show "length (board_table trams) = length trams"
    by (simp add: board_table_def sorted_trams_def)
  show "set (board_table trams) =
       (\<lambda>r. [tram_number r, tram_stop_name r, arrival_time r, time_to_arrival r]) ` set trams"
    by (simp add: board_table_def sorted_trams_def)
  show "sorted (map (\<lambda>row. row ! 3) (board_table trams))"
    by (simp add: board_time_column sorted_trams_def)
  show "map time_to_arrival
         (sorted_trams [a\<lparr>time_to_arrival := ''00:02:00''\<rparr>, b\<lparr>time_to_arrival := ''00:00:30''\<rparr>,
                        c\<lparr>time_to_arrival := ''00:04:00''\<rparr>])
       = [''00:00:30'', ''00:02:00'', ''00:04:00'']"
    by (simp add: sorted_trams_def)
next
  let ?rs = "sorted_trams trams"
  assume "\<forall>r \<in> set trams. \<exists>d. 0 \<le> d \<and> d < 36000000000
            \<and> time_to_arrival r = split_dot_first (timedelta_str d)"
  then have "\<forall>r \<in> set trams. \<exists>s. s < 36000 \<and> time_to_arrival r = hms s"
  proof (intro ballI)
    fix r assume "\<forall>r \<in> set trams. \<exists>d. 0 \<le> d \<and> d < 36000000000
            \<and> time_to_arrival r = split_dot_first (timedelta_str d)" and "r \<in> set trams"
    then obtain d where d: "0 \<le> d" "d < 36000000000"
      "time_to_arrival r = split_dot_first (timedelta_str d)" by blast
    from d(1,2) have "nat (d div 1000000) < 36000" by simp
    moreover from d have "time_to_arrival r = hms (nat (d div 1000000))"
      by (simp add: time_to_arrival_hms)
    ultimately show "\<exists>s. s < 36000 \<and> time_to_arrival r = hms s" by blast
  qed
  then obtain f where f: "\<forall>r \<in> set trams. f r < 36000 \<and> time_to_arrival r = hms (f r)"
    by metis
  have rs: "set ?rs = set trams" by (simp add: sorted_trams_def)
  have "sorted (map time_to_arrival ?rs)" by (simp add: sorted_trams_def)
  with f rs have sf: "sorted (map f ?rs)"
    by (intro sorted_by_text_sorted_by_seconds) simp_all
  define ds where "ds = map (\<lambda>r. int (f r) * 1000000) ?rs"
  have 1: "map (\<lambda>row. row ! 3) (board_table trams) = map (\<lambda>d. split_dot_first (timedelta_str d)) ds"
    using f rs by (simp add: board_time_column ds_def hms_of_whole_seconds)
  from sf have "sorted_wrt (\<lambda>x y. f x \<le> f y) ?rs" by (simp add: sorted_map)
  then have "sorted_wrt (\<lambda>x y. int (f x) * 1000000 \<le> int (f y) * 1000000) ?rs"
    by (rule sorted_wrt_mono_rel [rotated]) simp
  then have 2: "sorted ds" by (simp add: ds_def sorted_map)
  have 3: "\<forall>d \<in> set ds. 0 \<le> d \<and> d < 36000000000"
    using f rs by (auto simp: ds_def)
  from 1 2 3 show "\<exists>ds. map (\<lambda>row. row ! 3) (board_table trams) = map (\<lambda>d. split_dot_first (timedelta_str d)) ds
           \<and> sorted ds \<and> (\<forall>d \<in> set ds. 0 \<le> d \<and> d < 36000000000)"
    by blast
qed

lemma board_extraction:
  "get_incoming_trams utc_plus_1 board_feed demo_routes demo_selected demo_now = Inr board_trams"
  by (simp add: board_feed_def board_trams_def eval_demo eval_extract eval_text)

theorem board_sorted_by_time_to_arrival_witness:
  "get_incoming_trams utc_plus_1 board_feed demo_routes demo_selected demo_now = Inr board_trams
   \<and> map time_to_arrival board_trams = [''0:02:00'', ''0:00:30'', ''0:04:00'']
   \<and> map (\<lambda>row. row ! 3) (board_table board_trams) = [''0:00:30'', ''0:02:00'', ''0:04:00'']
   \<and> map (\<lambda>row. row ! 0) (board_table board_trams) = [''19'', ''17'', ''17'']
   \<and> (\<exists>ds. map (\<lambda>row. row ! 3) (board_table board_trams)
               = map (\<lambda>d. split_dot_first (timedelta_str d)) ds \<and> sorted ds)"
proof -
  have hyp: "\<forall>r \<in> set board_trams. \<exists>d. 0 \<le> d \<and> d < 36000000000
            \<and> time_to_arrival r = split_dot_first (timedelta_str d)"
    using extracted_time_to_arrival [OF board_extraction] by blast
  with board_sorted_by_time_to_arrival [of board_trams]
  have "\<exists>ds. map (\<lambda>row. row ! 3) (board_table board_trams)
               = map (\<lambda>d. split_dot_first (timedelta_str d)) ds \<and> sorted ds"
    by blast
  moreover have "map (\<lambda>row. row ! 3) (board_table board_trams) = [''0:00:30'', ''0:02:00'', ''0:04:00'']"
    "map (\<lambda>row. row ! 0) (board_table board_trams) = [''19'', ''17'', ''17'']"
    "map time_to_arrival board_trams = [''0:02:00'', ''0:00:30'', ''0:04:00'']"
    by (simp_all add: board_table_def sorted_trams_def board_trams_def)
  ultimately show ?thesis using board_extraction by simp
qed

subsection \<open>The stop resolver\<close>

lemma ascii_lower_zsigmond_ter:
  "ascii_lower zsigmond_ter = ''zsigmond t'' @ [CHR 0xC3, CHR 0xA9] @ ''r''"
  by code_simp

lemma ascii_lower_zsigmond: "ascii_lower ''zsigmond'' = ''zsigmond''"
  by code_simp

lemma ascii_lower_margit: "ascii_lower ''Margit hid'' = ''margit hid''"
  by code_simp

lemma ascii_lower_Nil: "ascii_lower [] = []"
  by (simp add: ascii_lower_def)

text \<open>
  C4: a stop is in the dict \<open>find_stops_by_name\<close> returns exactly when it is in
  \<open>stops_mapping\<close> and the lowered query occurs as a contiguous part of its lowered name.
  The entries keep their order. With the query \<open>zsigmond\<close> the stop named Zsigmond ter is
  found.
\<close>

theorem find_stops_by_name_substring:
  "((sid, details) \<in> set (find_stops_by_name lower stops_mapping query) \<longleftrightarrow>
      (sid, details) \<in> set stops_mapping
      \<and> (\<exists>before after. lower (stop_name details) = before @ lower query @ after))
   \<and> find_stops_by_name lower stops_mapping query =
       filter (\<lambda>(stop_id, details). \<exists>before after. lower (stop_name details) = before @ lower query @ after)
         stops_mapping"
  by (auto simp: find_stops_by_name_def sublist_def intro: filter_cong)

theorem find_stops_by_name_substring_witness:
  "(''F00947'', \<lparr> stop_name = zsigmond_ter, other_attributes = [] \<rparr>) \<in> set demo_stops
   \<and> ascii_lower zsigmond_ter = [] @ ascii_lower ''zsigmond'' @ ('' t'' @ [CHR 0xC3, CHR 0xA9] @ ''r'')
   \<and> (''F00947'', \<lparr> stop_name = zsigmond_ter, other_attributes = [] \<rparr>)
        \<in> set (find_stops_by_name ascii_lower demo_stops ''zsigmond'')
   \<and> find_stops_by_name ascii_lower demo_stops ''zsigmond'' = demo_selected"
proof -
  have m: "(''F00947'', \<lparr> stop_name = zsigmond_ter, other_attributes = [] \<rparr>) \<in> set demo_stops"
    by (simp add: demo_stops_def)
  have s: "ascii_lower zsigmond_ter = [] @ ascii_lower ''zsigmond'' @ ('' t'' @ [CHR 0xC3, CHR 0xA9] @ ''r'')"
    by (simp add: ascii_lower_zsigmond_ter ascii_lower_zsigmond)
  then have "\<exists>before after. ascii_lower (stop_name \<lparr> stop_name = zsigmond_ter, other_attributes = [] \<rparr>)
                 = before @ ascii_lower ''zsigmond'' @ after"
    by (metis stop_details.select_convs(1))
  with find_stops_by_name_substring [of "''F00947''" "\<lparr> stop_name = zsigmond_ter, other_attributes = [] \<rparr>"
      ascii_lower demo_stops "''zsigmond''"] m
  have "(''F00947'', \<lparr> stop_name = zsigmond_ter, other_attributes = [] \<rparr>)
        \<in> set (find_stops_by_name ascii_lower demo_stops ''zsigmond'')"
    by blast
  moreover have "find_stops_by_name ascii_lower demo_stops ''zsigmond'' = demo_selected"
    by (simp add: find_stops_by_name_def demo_stops_def demo_selected_def
        ascii_lower_zsigmond_ter ascii_lower_zsigmond ascii_lower_margit sublist_code)
  ultimately show ?thesis using m s by simp
qed

text \<open>
  C10: with the empty query (and a lowering that maps the empty text to itself, as
  \<^verbatim>\<open>str.lower\<close> does) \<open>find_stops_by_name\<close> returns the whole of \<open>stops_mapping\<close>.
\<close>

theorem find_stops_by_name_empty_query:
  "lower '''' = '''' \<Longrightarrow> find_stops_by_name lower stops_mapping '''' = stops_mapping"
  by (simp add: find_stops_by_name_def case_prod_unfold)

theorem find_stops_by_name_empty_query_witness:
  "ascii_lower '''' = '''' \<and> find_stops_by_name ascii_lower demo_stops '''' = demo_stops
   \<and> length (find_stops_by_name ascii_lower demo_stops '''') = 2"
  using find_stops_by_name_empty_query [of ascii_lower demo_stops] ascii_lower_Nil
  by (simp add: demo_stops_def)

subsection \<open>The session and the poll loop\<close>

lemma ascii_strip_nowhere: "ascii_strip '' Nowhere '' = ''Nowhere''"
  by (simp add: ascii_strip_def)

lemma ascii_strip_zsigmond: "ascii_strip ''zsigmond'' = ''zsigmond''"
  by (simp add: ascii_strip_def)

lemma ascii_lower_nowhere: "ascii_lower ''Nowhere'' = ''nowhere''"
  by code_simp

lemma find_nowhere: "find_stops_by_name ascii_lower demo_stops ''Nowhere'' = []"
  by (simp add: find_stops_by_name_def demo_stops_def
      ascii_lower_zsigmond_ter ascii_lower_nowhere ascii_lower_margit sublist_code)

lemma find_zsigmond: "find_stops_by_name ascii_lower demo_stops ''zsigmond'' = demo_selected"
  by (simp add: find_stops_by_name_def demo_stops_def demo_selected_def
      ascii_lower_zsigmond_ter ascii_lower_zsigmond ascii_lower_margit sublist_code)

lemma find_stops_by_name_empty_iff:
  "find_stops_by_name lower stops q = [] \<longleftrightarrow>
     (\<forall>(sid, d) \<in> set stops. \<not> (\<exists>before after. lower (stop_name d) = before @ lower q @ after))"
  by (auto simp: find_stops_by_name_def filter_empty_conv sublist_def)

lemma main_selected:
  assumes "static_files w = Inr (routes, stops)" and "stdin w = line # unread"
    and "find_stops_by_name (str_lower w) stops (str_strip w line) = sel" and "sel \<noteq> []"
  shows "main w =
           ([Print (''Loading BKK GTFS static data...'' @ [CHR 0x0A]), Input input_prompt,
             Print (CHR 0x0A # ''Found '' @ str_int (int (length sel)) @ '' stop(s) for '' @ [CHR 0x27]
                      @ str_strip w line @ [CHR 0x27] @ '':'')]
            @ map (\<lambda>(stop_id, details).
                     Print (''- Stop ID: '' @ stop_id @ '', Stop Name: '' @ stop_name details)) sel
            @ fst (poll_loop (utcoffset w) (ParseFromString w) routes sel (cycles w)),
            snd (poll_loop (utcoffset w) (ParseFromString w) routes sel (cycles w)))"
  using assms by (simp add: main_def Let_def case_prod_unfold)

text \<open>
  C8 (as the program does it): when no stop name contains the query,
  \<open>find_stops_by_name\<close> returns the empty dict, and \<open>main\<close> prints the
  ``No stops found'' line and returns. Nothing more is read from standard input and the
  poll loop is not entered.
\<close>

theorem no_match_ends_session:
  assumes "static_files w = Inr (routes, stops)" and "stdin w = line # unread"
    and "\<forall>(sid, d) \<in> set stops.
           \<not> (\<exists>before after. str_lower w (stop_name d) = before @ str_lower w (str_strip w line) @ after)"
  shows "find_stops_by_name (str_lower w) stops (str_strip w line) = []
         \<and> main w =
             ([Print (''Loading BKK GTFS static data...'' @ [CHR 0x0A]),
               Input input_prompt,
               Print (''No stops found matching '' @ [CHR 0x27] @ str_strip w line @ [CHR 0x27]
                        @ ''. Please try again.'')],
              Returned)"
proof -
  from assms(3) have "find_stops_by_name (str_lower w) stops (str_strip w line) = []"
    by (simp add: find_stops_by_name_empty_iff)
  with assms(1,2) show ?thesis by (simp add: main_def)
qed

theorem no_match_ends_session_witness:
  "static_files retry_env = Inr (demo_routes, demo_stops)
   \<and> stdin retry_env = '' Nowhere '' # [''zsigmond'']
   \<and> find_stops_by_name ascii_lower demo_stops ''Nowhere'' = []
   \<and> main retry_env =
        ([Print (''Loading BKK GTFS static data...'' @ [CHR 0x0A]),
          Input input_prompt,
          Print (''No stops found matching '' @ [CHR 0x27] @ ''Nowhere'' @ [CHR 0x27]
                   @ ''. Please try again.'')],
         Returned)"
proof -
  have 1: "static_files retry_env = Inr (demo_routes, demo_stops)"
    and 2: "stdin retry_env = '' Nowhere '' # [''zsigmond'']"
    by (simp_all add: retry_env_def)
  have "find_stops_by_name (str_lower retry_env) demo_stops (str_strip retry_env '' Nowhere '') = []"
    by (simp add: retry_env_def ascii_strip_nowhere find_nowhere)
  then have 3: "\<forall>(sid, d) \<in> set demo_stops.
           \<not> (\<exists>before after. str_lower retry_env (stop_name d)
                  = before @ str_lower retry_env (str_strip retry_env '' Nowhere '') @ after)"
    by (simp add: find_stops_by_name_empty_iff)
  from no_match_ends_session [OF 1 2 3] 1 2 show ?thesis
    by (simp add: retry_env_def ascii_strip_nowhere)
qed

text \<open>
  Counterexample to C8 as stated: after a query without a match the run is over, although
  a query that matches is waiting on standard input; the prompt appears once.
\<close>

theorem no_match_no_second_query:
  "snd (main retry_env) = Returned
   \<and> fst (main retry_env) =
        [Print (''Loading BKK GTFS static data...'' @ [CHR 0x0A]),
         Input input_prompt,
         Print (''No stops found matching '' @ [CHR 0x27] @ ''Nowhere'' @ [CHR 0x27]
                  @ ''. Please try again.'')]
   \<and> stdin retry_env = ['' Nowhere '', ''zsigmond'']
   \<and> find_stops_by_name (str_lower retry_env) demo_stops (str_strip retry_env ''zsigmond'') = demo_selected
   \<and> demo_selected \<noteq> []"
  by (simp add: main_def retry_env_def ascii_strip_nowhere ascii_strip_zsigmond find_nowhere
      find_zsigmond demo_selected_def)

lemma crash_env_selected:
  "find_stops_by_name (str_lower crash_env) demo_stops (str_strip crash_env ''zsigmond'') = demo_selected"
  by (simp add: crash_env_def ascii_strip_zsigmond find_zsigmond)

lemma demo_decoder_malformed: "demo_decoder [CHR 0xFF] = Inl DecodeError"
  by (simp add: demo_decoder_def empty_feed_bytes_def)

lemma demo_decoder_empty_feed: "demo_decoder empty_feed_bytes = Inr \<lparr> entity = [] \<rparr>"
  by (simp add: demo_decoder_def)

lemma no_entities_no_trams:
  "get_incoming_trams tz \<lparr> entity = [] \<rparr> routes sel t = Inr []"
  by (simp add: get_incoming_trams_def)

text \<open>
  Counterexample to C2 as stated: the malformed buffer of the first pass ends the run with
  the decoder's error; the second pass, whose buffer is well-formed, never starts, and
  nothing waits for the interval.
\<close>

theorem decode_failure_stops_polling:
  "length (cycles crash_env) = 2
   \<and> ParseFromString crash_env [CHR 0xFF] = Inl DecodeError
   \<and> ParseFromString crash_env empty_feed_bytes = Inr \<lparr> entity = [] \<rparr>
   \<and> main crash_env =
        ([Print (''Loading BKK GTFS static data...'' @ [CHR 0x0A]),
          Input input_prompt,
          Print (CHR 0x0A # ''Found 1 stop(s) for '' @ [CHR 0x27] @ ''zsigmond'' @ [CHR 0x27] @ '':''),
          Print (''- Stop ID: F00947, Stop Name: '' @ zsigmond_ter),
          Print (CHR 0x0A # ''Fetching real-time data...'')],
         Raised DecodeError)"
proof -
  have s: "static_files crash_env = Inr (demo_routes, demo_stops)"
    and i: "stdin crash_env = ''zsigmond'' # []"
    by (simp_all add: crash_env_def)
  have n: "demo_selected \<noteq> []" by (simp add: demo_selected_def)
  have p: "poll_loop (utcoffset crash_env) (ParseFromString crash_env) demo_routes demo_selected
             (cycles crash_env)
           = ([Print (CHR 0x0A # ''Fetching real-time data...'')], Raised DecodeError)"
    by (simp add: crash_env_def fetch_gtfs_rt_feed_def demo_decoder_malformed)
  have one: "str_int (int (length demo_selected)) = ''1''"
    by (simp add: demo_selected_def str_int_def digits_lt10 digit_char_numeral)
  have "main crash_env =
        ([Print (''Loading BKK GTFS static data...'' @ [CHR 0x0A]),
          Input input_prompt,
          Print (CHR 0x0A # ''Found 1 stop(s) for '' @ [CHR 0x27] @ ''zsigmond'' @ [CHR 0x27] @ '':''),
          Print (''- Stop ID: F00947, Stop Name: '' @ zsigmond_ter)]
         @ [Print (CHR 0x0A # ''Fetching real-time data...'')],
         Raised DecodeError)"
    unfolding main_selected [OF s i crash_env_selected n] p one
    by (simp add: crash_env_def ascii_strip_zsigmond demo_selected_def)
  then show ?thesis
    by (simp add: crash_env_def demo_decoder_malformed demo_decoder_empty_feed)
qed

subsection \<open>Dependence on the inputs\<close>

lemma feed_events_iff:
  "(tu, st) \<in> set (feed_events feed) \<longleftrightarrow>
     (\<exists>e \<in> set (entity feed). entity_trip_update e = Some tu \<and> st \<in> set (stop_time_updates tu))"
  by (force simp: feed_events_def split: option.splits)

lemma stop_time_loop_result:
  "stop_time_loop tz routes sel t tu sts acc = Inr out \<Longrightarrow>
     out = acc @ concat (map (\<lambda>st. case stop_time_step tz routes sel t tu st of
                                       Inl e \<Rightarrow> [] | Inr new \<Rightarrow> new) sts)"
proof (induction sts arbitrary: acc)
  case Nil
  then show ?case by simp
next
  case (Cons st sts)
  from Cons.prems obtain new where new: "stop_time_step tz routes sel t tu st = Inr new"
    and rest: "stop_time_loop tz routes sel t tu sts (acc @ new) = Inr out"
    by (auto split: sum.splits)
  from Cons.IH [OF rest] new show ?case by simp
qed

lemma entity_loop_result:
  "entity_loop tz routes sel t es acc = Inr out \<Longrightarrow>
     out = acc @ concat (map (\<lambda>(tu, st). case stop_time_step tz routes sel t tu st of
                                            Inl e \<Rightarrow> [] | Inr new \<Rightarrow> new)
                           (feed_events \<lparr> entity = es \<rparr>))"
proof (induction es arbitrary: acc)
  case Nil
  then show ?case by (simp add: feed_events_def)
next
  case (Cons e es)
  show ?case
  proof (cases "entity_trip_update e")
    case None
    with Cons show ?thesis by (simp add: feed_events_def)
  next
    case (Some tu)
    with Cons.prems obtain mid where
      mid: "stop_time_loop tz routes sel t tu (stop_time_updates tu) acc = Inr mid"
      and rest: "entity_loop tz routes sel t es mid = Inr out"
      by (auto split: sum.splits)
    from stop_time_loop_result [OF mid] Cons.IH [OF rest] Some show ?thesis
      by (simp add: feed_events_def comp_def)
  qed
qed

lemma stop_time_step_cong:
  assumes "map_of routes = map_of routes'" and "map_of sel = map_of sel'"
    and "\<forall>ts. stop_id st \<in> fst ` set sel \<longrightarrow> arrival st = Some ts \<longrightarrow>
           fromtimestamp tz ts = fromtimestamp tz' ts"
  shows "stop_time_step tz routes sel t tu st = stop_time_step tz' routes' sel' t tu st"
proof (cases "map_of sel (stop_id st)")
  case None
  with assms(2) show ?thesis by (simp add: stop_time_step_def)
next
  case (Some details)
  then have "stop_id st \<in> fst ` set sel"
    by (metis map_of_eq_None_iff option.distinct(1))
  with assms(3) have "\<forall>ts. arrival st = Some ts \<longrightarrow> fromtimestamp tz ts = fromtimestamp tz' ts"
    by simp
  with assms(1,2) show ?thesis
    by (simp add: stop_time_step_def Let_def split: option.splits sum.splits)
qed

lemma stop_time_loop_cong:
  "\<forall>st \<in> set sts. stop_time_step tz routes sel t tu st = stop_time_step tz' routes' sel' t tu st \<Longrightarrow>
     stop_time_loop tz routes sel t tu sts acc = stop_time_loop tz' routes' sel' t tu sts acc"
  by (induction sts arbitrary: acc) (simp_all split: sum.splits)

lemma entity_loop_cong:
  "\<forall>e \<in> set es. \<forall>tu. entity_trip_update e = Some tu \<longrightarrow>
      (\<forall>st \<in> set (stop_time_updates tu).
          stop_time_step tz routes sel t tu st = stop_time_step tz' routes' sel' t tu st) \<Longrightarrow>
     entity_loop tz routes sel t es acc = entity_loop tz' routes' sel' t es acc"
proof (induction es arbitrary: acc)
  case Nil
  show ?case by simp
next
  case (Cons e es)
  then have rest: "entity_loop tz routes sel t es acc' = entity_loop tz' routes' sel' t es acc'" for acc'
    by simp
  show ?case
  proof (cases "entity_trip_update e")
    case None
    with rest show ?thesis by simp
  next
    case (Some tu)
    with Cons.prems have "\<forall>st \<in> set (stop_time_updates tu).
          stop_time_step tz routes sel t tu st = stop_time_step tz' routes' sel' t tu st"
      by simp
    then have "stop_time_loop tz routes sel t tu (stop_time_updates tu) acc
                 = stop_time_loop tz' routes' sel' t tu (stop_time_updates tu) acc"
      by (rule stop_time_loop_cong)
    with Some rest show ?thesis by (simp split: sum.splits)
  qed
qed

text \<open>
  C9 (as the program does it): the result of \<open>get_incoming_trams\<close> depends on the local
  zone besides its four arguments. Two calls with the same feed and current time, with
  dicts that agree as mappings, and under zones that convert every arrival timestamp of
  the feed at a selected stop alike (in particular under the same zone), return the same
  list of dicts in the same order, or raise the same error. The list holds, in the order
  of the feed, what the loop body gives for each stop-time event.
\<close>

theorem extraction_deterministic:
  assumes "feed = feed'" and "t = t'"
    and "map_of routes = map_of routes'" and "map_of sel = map_of sel'"
    and "\<forall>(tu, st) \<in> set (feed_events feed). \<forall>ts.
           stop_id st \<in> fst ` set sel \<longrightarrow> arrival st = Some ts \<longrightarrow>
           fromtimestamp tz ts = fromtimestamp tz' ts"
  shows "get_incoming_trams tz feed routes sel t = get_incoming_trams tz' feed' routes' sel' t'
         \<and> (\<forall>trams. get_incoming_trams tz feed routes sel t = Inr trams \<longrightarrow>
               trams = concat (map (\<lambda>(tu, st). case stop_time_step tz routes sel t tu st of
                                                   Inl e \<Rightarrow> [] | Inr new \<Rightarrow> new)
                                  (feed_events feed)))"
proof
  have "\<forall>e \<in> set (entity feed). \<forall>tu. entity_trip_update e = Some tu \<longrightarrow>
      (\<forall>st \<in> set (stop_time_updates tu).
          stop_time_step tz routes sel t tu st = stop_time_step tz' routes' sel' t tu st)"
  proof (intro ballI allI impI)
    fix e tu st
    assume "e \<in> set (entity feed)" "entity_trip_update e = Some tu" "st \<in> set (stop_time_updates tu)"
    then have "(tu, st) \<in> set (feed_events feed)"
      by (auto simp: feed_events_iff)
    with assms(5) have "\<forall>ts. stop_id st \<in> fst ` set sel \<longrightarrow> arrival st = Some ts \<longrightarrow>
           fromtimestamp tz ts = fromtimestamp tz' ts"
      by blast
    with assms(3,4) show "stop_time_step tz routes sel t tu st = stop_time_step tz' routes' sel' t tu st"
      by (rule stop_time_step_cong)
  qed
  then have "entity_loop tz routes sel t (entity feed) [] = entity_loop tz' routes' sel' t (entity feed) []"
    by (rule entity_loop_cong)
  with assms(1,2) show "get_incoming_trams tz feed routes sel t = get_incoming_trams tz' feed' routes' sel' t'"
    by (simp add: get_incoming_trams_def)
next
  show "\<forall>trams. get_incoming_trams tz feed routes sel t = Inr trams \<longrightarrow>
               trams = concat (map (\<lambda>(tu, st). case stop_time_step tz routes sel t tu st of
                                                   Inl e \<Rightarrow> [] | Inr new \<Rightarrow> new)
                                  (feed_events feed))"
  proof (intro allI impI)
    fix trams assume "get_incoming_trams tz feed routes sel t = Inr trams"
    then have "entity_loop tz routes sel t (entity feed) [] = Inr trams"
      by (simp add: get_incoming_trams_def)
    moreover have "feed_events \<lparr> entity = entity feed \<rparr> = feed_events feed"
      by (simp add: feed_events_def)
    ultimately show "trams = concat (map (\<lambda>(tu, st). case stop_time_step tz routes sel t tu st of
                                                   Inl e \<Rightarrow> [] | Inr new \<Rightarrow> new)
                                  (feed_events feed))"
      using entity_loop_result [of tz routes sel t "entity feed" "[]" trams] by simp
  qed
qed

theorem extraction_deterministic_witness:
  "map_of demo_routes = map_of (rev demo_routes)
   \<and> central_european 1711846800 = 7200 \<and> utc_plus_1 1711846800 = 3600
   \<and> get_incoming_trams utc_plus_1 mixed_feed demo_routes demo_selected demo_now
     = get_incoming_trams central_european mixed_feed (rev demo_routes) demo_selected demo_now
   \<and> get_incoming_trams central_european mixed_feed (rev demo_routes) demo_selected demo_now
     = Inr mixed_trams
   \<and> mixed_trams = concat (map (\<lambda>(tu, st). case stop_time_step utc_plus_1 demo_routes demo_selected
                                                     demo_now tu st of
                                                Inl e \<Rightarrow> [] | Inr new \<Rightarrow> new)
                               (feed_events mixed_feed))"
proof -
  have m: "map_of demo_routes = map_of (rev demo_routes)"
    by (rule ext) (simp add: demo_routes_def)
  have z: "\<forall>(tu, st) \<in> set (feed_events mixed_feed). \<forall>ts.
           stop_id st \<in> fst ` set demo_selected \<longrightarrow> arrival st = Some ts \<longrightarrow>
           fromtimestamp utc_plus_1 ts = fromtimestamp central_european ts"
    by (simp add: feed_events_def mixed_feed_def trip_def at_stop_def fromtimestamp_def
        utc_plus_1_def central_european_def)
  have o: "central_european 1711846800 = 7200" "utc_plus_1 1711846800 = 3600"
    by (simp_all add: central_european_def utc_plus_1_def)
  from extraction_deterministic [OF refl refl m refl z, of demo_now] m o mixed_extraction
  show ?thesis by simp
qed

text \<open>
  Counterexample to C9 as stated: the same feed, catalog, selected stops and current time
  give two arrivals under UTC+1 and none under UTC.
\<close>

theorem zone_changes_result:
  "get_incoming_trams utc_plus_1 boundary_feed demo_routes demo_selected demo_now = Inr boundary_trams
   \<and> get_incoming_trams utc_zone boundary_feed demo_routes demo_selected demo_now = Inr []
   \<and> length boundary_trams = 2"
proof -
  have "get_incoming_trams utc_zone boundary_feed demo_routes demo_selected demo_now = Inr []"
    by (simp add: boundary_feed_def demo_routes_def demo_selected_def demo_now_def utc_zone_def
        eval_extract)
  with boundary_extraction show ?thesis by (simp add: boundary_trams_def)
qed

lemma poll_loop_failure:
  "fetch_gtfs_rt_feed (\<lambda>url. response c) parse URL = Inl e
   \<or> (\<exists>feed. fetch_gtfs_rt_feed (\<lambda>url. response c) parse URL = Inr feed
              \<and> get_incoming_trams tz feed routes sel (now c) = Inl e) \<Longrightarrow>
     poll_loop tz parse routes sel (c # rest)
       = ([Print (CHR 0x0A # ''Fetching real-time data...'')], Raised e)"
  by (auto simp: Let_def)

lemma poll_loop_success:
  "fetch_gtfs_rt_feed (\<lambda>url. response c) parse URL = Inr feed \<Longrightarrow>
   get_incoming_trams tz feed routes sel (now c) = Inr trams \<Longrightarrow>
     poll_loop tz parse routes sel (c # rest)
       = ([Print (CHR 0x0A # ''Fetching real-time data...''),
           Print [CHR 0x1B, CHR ''['', CHR ''H'', CHR 0x1B, CHR ''['', CHR ''J''],
           Print (board_header sel)]
          @ (if trams \<noteq> [] then display_real_time_board trams
             else [Print ''No trams arriving within the next 5 minutes.''])
          @ [Sleep 30]
          @ fst (poll_loop tz parse routes sel rest),
          snd (poll_loop tz parse routes sel rest))"
  by (simp add: Let_def case_prod_unfold)

lemma poll_loop_prefix:
  assumes "\<forall>d \<in> set before. \<exists>feed trams.
             fetch_gtfs_rt_feed (\<lambda>url. response d) parse URL = Inr feed
             \<and> get_incoming_trams tz feed routes sel (now d) = Inr trams"
  shows "poll_loop tz parse routes sel (before @ later)
           = (fst (poll_loop tz parse routes sel before) @ fst (poll_loop tz parse routes sel later),
              snd (poll_loop tz parse routes sel later))
         \<and> snd (poll_loop tz parse routes sel before) = Running
         \<and> length (filter (\<lambda>ev. ev = Sleep 30) (fst (poll_loop tz parse routes sel before))) = length before"
  using assms
proof (induction before)
  case Nil
  show ?case by simp
next
  case (Cons d ds)
  then obtain feed trams where ok: "fetch_gtfs_rt_feed (\<lambda>url. response d) parse URL = Inr feed"
    "get_incoming_trams tz feed routes sel (now d) = Inr trams"
    by auto
  from Cons have ih: "poll_loop tz parse routes sel (ds @ later)
           = (fst (poll_loop tz parse routes sel ds) @ fst (poll_loop tz parse routes sel later),
              snd (poll_loop tz parse routes sel later))"
    "snd (poll_loop tz parse routes sel ds) = Running"
    "length (filter (\<lambda>ev. ev = Sleep 30) (fst (poll_loop tz parse routes sel ds))) = length ds"
    by simp_all
  have 1: "poll_loop tz parse routes sel ((d # ds) @ later)
           = (fst (poll_loop tz parse routes sel (d # ds)) @ fst (poll_loop tz parse routes sel later),
              snd (poll_loop tz parse routes sel later))"
    using ih(1) by (simp add: poll_loop_success [OF ok] del: poll_loop.simps)
  have 2: "snd (poll_loop tz parse routes sel (d # ds)) = Running"
    using ih(2) by (simp add: poll_loop_success [OF ok] del: poll_loop.simps)
  have 3: "length (filter (\<lambda>ev. ev = Sleep 30) (fst (poll_loop tz parse routes sel (d # ds))))
             = length (d # ds)"
    using ih(3) by (simp add: poll_loop_success [OF ok] display_real_time_board_def del: poll_loop.simps)
  from 1 2 3 show ?case by blast
qed

text \<open>
  C2 (as the program does it): nothing catches an exception. A decoder error (like a
  transport error) leaves \<open>fetch_gtfs_rt_feed\<close>, and a pass of the loop in which the fetch
  or the extraction raises ends the loop with that error right after the ``Fetching''
  line: nothing is rendered and there is no wait. Only a pass in which both succeed
  prints the board or the no-trams line, waits 30 seconds and continues with the next
  pass. For a whole run: when the passes before some pass succeed and that pass raises,
  \<open>main\<close> ends with the error, having waited once per earlier pass, and the later passes
  do not run.
\<close>

theorem decode_failure_ends_loop:
  "(response c = Inr content \<and> parse content = Inl e \<longrightarrow>
      fetch_gtfs_rt_feed (\<lambda>url. response c) parse URL = Inl e)
   \<and> (response c = Inl e \<longrightarrow>
      fetch_gtfs_rt_feed (\<lambda>url. response c) parse URL = Inl e)
   \<and> (fetch_gtfs_rt_feed (\<lambda>url. response c) parse URL = Inl e \<longrightarrow>
      poll_loop tz parse routes sel (c # rest)
        = ([Print (CHR 0x0A # ''Fetching real-time data...'')], Raised e))
   \<and> (fetch_gtfs_rt_feed (\<lambda>url. response c) parse URL = Inr feed
        \<and> get_incoming_trams tz feed routes sel (now c) = Inl e \<longrightarrow>
      poll_loop tz parse routes sel (c # rest)
        = ([Print (CHR 0x0A # ''Fetching real-time data...'')], Raised e))
   \<and> (fetch_gtfs_rt_feed (\<lambda>url. response c) parse URL = Inr feed
        \<and> get_incoming_trams tz feed routes sel (now c) = Inr trams \<longrightarrow>
      poll_loop tz parse routes sel (c # rest)
        = ([Print (CHR 0x0A # ''Fetching real-time data...''),
            Print [CHR 0x1B, CHR ''['', CHR ''H'', CHR 0x1B, CHR ''['', CHR ''J''],
            Print (board_header sel)]
           @ (if trams \<noteq> [] then display_real_time_board trams
              else [Print ''No trams arriving within the next 5 minutes.''])
           @ [Sleep 30]
           @ fst (poll_loop tz parse routes sel rest),
           snd (poll_loop tz parse routes sel rest)))
   \<and> (static_files w = Inr (routes, stops) \<and> stdin w = line # unread
        \<and> find_stops_by_name (str_lower w) stops (str_strip w line) = sel \<and> sel \<noteq> []
        \<and> tz = utcoffset w \<and> parse = ParseFromString w
        \<and> cycles w = before @ c # rest
        \<and> (\<forall>d \<in> set before. \<exists>feed trams.
               fetch_gtfs_rt_feed (\<lambda>url. response d) parse URL = Inr feed
               \<and> get_incoming_trams tz feed routes sel (now d) = Inr trams)
        \<and> (fetch_gtfs_rt_feed (\<lambda>url. response c) parse URL = Inl e
            \<or> (\<exists>feed. fetch_gtfs_rt_feed (\<lambda>url. response c) parse URL = Inr feed
                       \<and> get_incoming_trams tz feed routes sel (now c) = Inl e)) \<longrightarrow>
      snd (main w) = Raised e
      \<and> fst (main w) =
          [Print (''Loading BKK GTFS static data...'' @ [CHR 0x0A]), Input input_prompt,
           Print (CHR 0x0A # ''Found '' @ str_int (int (length sel)) @ '' stop(s) for '' @ [CHR 0x27]
                    @ str_strip w line @ [CHR 0x27] @ '':'')]
          @ map (\<lambda>(stop_id, details).
                   Print (''- Stop ID: '' @ stop_id @ '', Stop Name: '' @ stop_name details)) sel
          @ fst (poll_loop tz parse routes sel before)
          @ [Print (CHR 0x0A # ''Fetching real-time data...'')]
      \<and> length (filter (\<lambda>ev. ev = Sleep 30) (fst (main w))) = length before)"
proof (intro conjI impI)
  assume "response c = Inr content \<and> parse content = Inl e"
  then show "fetch_gtfs_rt_feed (\<lambda>url. response c) parse URL = Inl e"
    by (simp add: fetch_gtfs_rt_feed_def)
next
  assume "response c = Inl e"
  then show "fetch_gtfs_rt_feed (\<lambda>url. response c) parse URL = Inl e"
    by (simp add: fetch_gtfs_rt_feed_def)
next
  assume "fetch_gtfs_rt_feed (\<lambda>url. response c) parse URL = Inl e"
  then show "poll_loop tz parse routes sel (c # rest)
        = ([Print (CHR 0x0A # ''Fetching real-time data...'')], Raised e)"
    by (intro poll_loop_failure) simp
next
  assume "fetch_gtfs_rt_feed (\<lambda>url. response c) parse URL = Inr feed
        \<and> get_incoming_trams tz feed routes sel (now c) = Inl e"
  then show "poll_loop tz parse routes sel (c # rest)
        = ([Print (CHR 0x0A # ''Fetching real-time data...'')], Raised e)"
    by (intro poll_loop_failure) blast
next
  assume "fetch_gtfs_rt_feed (\<lambda>url. response c) parse URL = Inr feed
        \<and> get_incoming_trams tz feed routes sel (now c) = Inr trams"
  then show "poll_loop tz parse routes sel (c # rest)
        = ([Print (CHR 0x0A # ''Fetching real-time data...''),
            Print [CHR 0x1B, CHR ''['', CHR ''H'', CHR 0x1B, CHR ''['', CHR ''J''],
            Print (board_header sel)]
           @ (if trams \<noteq> [] then display_real_time_board trams
              else [Print ''No trams arriving within the next 5 minutes.''])
           @ [Sleep 30]
           @ fst (poll_loop tz parse routes sel rest),
           snd (poll_loop tz parse routes sel rest))"
    by (simp add: Let_def case_prod_unfold)
next
  assume a: "static_files w = Inr (routes, stops) \<and> stdin w = line # unread
        \<and> find_stops_by_name (str_lower w) stops (str_strip w line) = sel \<and> sel \<noteq> []
        \<and> tz = utcoffset w \<and> parse = ParseFromString w
        \<and> cycles w = before @ c # rest
        \<and> (\<forall>d \<in> set before. \<exists>feed trams.
               fetch_gtfs_rt_feed (\<lambda>url. response d) parse URL = Inr feed
               \<and> get_incoming_trams tz feed routes sel (now d) = Inr trams)
        \<and> (fetch_gtfs_rt_feed (\<lambda>url. response c) parse URL = Inl e
            \<or> (\<exists>feed. fetch_gtfs_rt_feed (\<lambda>url. response c) parse URL = Inr feed
                       \<and> get_incoming_trams tz feed routes sel (now c) = Inl e))"
  then have ok: "\<forall>d \<in> set before. \<exists>feed trams.
               fetch_gtfs_rt_feed (\<lambda>url. response d) parse URL = Inr feed
               \<and> get_incoming_trams tz feed routes sel (now d) = Inr trams"
    by blast
  from a have "poll_loop tz parse routes sel (c # rest)
                 = ([Print (CHR 0x0A # ''Fetching real-time data...'')], Raised e)"
    by (intro poll_loop_failure) blast
  with poll_loop_prefix [OF ok, of "c # rest"]
  have run: "poll_loop tz parse routes sel (before @ c # rest)
               = (fst (poll_loop tz parse routes sel before)
                    @ [Print (CHR 0x0A # ''Fetching real-time data...'')], Raised e)"
    and sleeps: "length (filter (\<lambda>ev. ev = Sleep 30) (fst (poll_loop tz parse routes sel before)))
                   = length before"
    by simp_all
  from a have s: "static_files w = Inr (routes, stops)" and i: "stdin w = line # unread"
    and f: "find_stops_by_name (str_lower w) stops (str_strip w line) = sel" and n: "sel \<noteq> []"
    and p: "utcoffset w = tz" "ParseFromString w = parse" "cycles w = before @ c # rest"
    by simp_all
  note m = main_selected [OF s i f n, unfolded p run]
  show "snd (main w) = Raised e"
    by (simp add: m)
  show "fst (main w) =
          [Print (''Loading BKK GTFS static data...'' @ [CHR 0x0A]), Input input_prompt,
           Print (CHR 0x0A # ''Found '' @ str_int (int (length sel)) @ '' stop(s) for '' @ [CHR 0x27]
                    @ str_strip w line @ [CHR 0x27] @ '':'')]
          @ map (\<lambda>(stop_id, details).
                   Print (''- Stop ID: '' @ stop_id @ '', Stop Name: '' @ stop_name details)) sel
          @ fst (poll_loop tz parse routes sel before)
          @ [Print (CHR 0x0A # ''Fetching real-time data...'')]"
    by (simp add: m)
  show "length (filter (\<lambda>ev. ev = Sleep 30) (fst (main w))) = length before"
    by (simp add: m sleeps filter_empty_conv case_prod_unfold)
qed

theorem decode_failure_ends_loop_witness:
  "demo_decoder [CHR 0xFF] = Inl DecodeError
   \<and> poll_loop utc_plus_1 demo_decoder demo_routes demo_selected
        (\<lparr> now = demo_now + 30000000, response = Inr [CHR 0xFF] \<rparr>
           # [\<lparr> now = demo_now + 60000000, response = Inr empty_feed_bytes \<rparr>])
       = ([Print (CHR 0x0A # ''Fetching real-time data...'')], Raised DecodeError)
   \<and> poll_loop utc_plus_1 demo_decoder demo_routes demo_selected
        (\<lparr> now = demo_now, response = Inr empty_feed_bytes \<rparr> # [])
       = ([Print (CHR 0x0A # ''Fetching real-time data...''),
           Print [CHR 0x1B, CHR ''['', CHR ''H'', CHR 0x1B, CHR ''['', CHR ''J''],
           Print (board_header demo_selected),
           Print ''No trams arriving within the next 5 minutes.'',
           Sleep 30],
          Running)
   \<and> length (cycles late_crash_env) = 3
   \<and> snd (main late_crash_env) = Raised DecodeError
   \<and> length (filter (\<lambda>ev. ev = Sleep 30) (fst (main late_crash_env))) = 1"
proof -
  let ?good1 = "\<lparr> now = demo_now, response = Inr empty_feed_bytes \<rparr>"
  let ?bad = "\<lparr> now = demo_now + 30000000, response = Inr [CHR 0xFF] \<rparr>"
  let ?good3 = "\<lparr> now = demo_now + 60000000, response = Inr empty_feed_bytes \<rparr>"
  have fb: "fetch_gtfs_rt_feed (\<lambda>url. response ?bad) demo_decoder URL = Inl DecodeError"
    by (simp add: fetch_gtfs_rt_feed_def demo_decoder_malformed)
  have fg: "fetch_gtfs_rt_feed (\<lambda>url. response ?good1) demo_decoder URL = Inr \<lparr> entity = [] \<rparr>"
    by (simp add: fetch_gtfs_rt_feed_def demo_decoder_empty_feed)
  have ex: "get_incoming_trams utc_plus_1 \<lparr> entity = [] \<rparr> demo_routes demo_selected (now ?good1) = Inr []"
    by (rule no_entities_no_trams)
  have hyp: "static_files late_crash_env = Inr (demo_routes, demo_stops)
        \<and> stdin late_crash_env = ''zsigmond'' # []
        \<and> find_stops_by_name (str_lower late_crash_env) demo_stops (str_strip late_crash_env ''zsigmond'')
            = demo_selected
        \<and> demo_selected \<noteq> []
        \<and> utc_plus_1 = utcoffset late_crash_env \<and> demo_decoder = ParseFromString late_crash_env
        \<and> cycles late_crash_env = [?good1] @ ?bad # [?good3]
        \<and> (\<forall>d \<in> set [?good1]. \<exists>feed trams.
               fetch_gtfs_rt_feed (\<lambda>url. response d) demo_decoder URL = Inr feed
               \<and> get_incoming_trams utc_plus_1 feed demo_routes demo_selected (now d) = Inr trams)
        \<and> (fetch_gtfs_rt_feed (\<lambda>url. response ?bad) demo_decoder URL = Inl DecodeError
            \<or> (\<exists>feed. fetch_gtfs_rt_feed (\<lambda>url. response ?bad) demo_decoder URL = Inr feed
                       \<and> get_incoming_trams utc_plus_1 feed demo_routes demo_selected (now ?bad)
                           = Inl DecodeError))"
    using fb fg ex
    by (simp add: late_crash_env_def ascii_strip_zsigmond find_zsigmond demo_selected_def)
  note a = decode_failure_ends_loop [where c = ?bad and parse = demo_decoder and e = DecodeError
      and tz = utc_plus_1 and routes = demo_routes and sel = demo_selected and rest = "[?good3]"
      and w = late_crash_env and stops = demo_stops and line = "''zsigmond''" and unread = "[]"
      and before = "[?good1]"]
  note b = decode_failure_ends_loop [where c = ?good1 and parse = demo_decoder
      and tz = utc_plus_1 and routes = demo_routes and sel = demo_selected and rest = "[]"
      and feed = "\<lparr> entity = [] \<rparr>" and trams = "[]"]
  from a fb have 1: "poll_loop utc_plus_1 demo_decoder demo_routes demo_selected (?bad # [?good3])
       = ([Print (CHR 0x0A # ''Fetching real-time data...'')], Raised DecodeError)"
    by blast
  from a hyp have 2: "snd (main late_crash_env) = Raised DecodeError"
    and 3: "length (filter (\<lambda>ev. ev = Sleep 30) (fst (main late_crash_env))) = length [?good1]"
    by blast+
  from b fg ex have "poll_loop utc_plus_1 demo_decoder demo_routes demo_selected (?good1 # [])
       = ([Print (CHR 0x0A # ''Fetching real-time data...''),
            Print [CHR 0x1B, CHR ''['', CHR ''H'', CHR 0x1B, CHR ''['', CHR ''J''],
            Print (board_header demo_selected)]
           @ (if [] \<noteq> ([] :: tram list) then display_real_time_board []
              else [Print ''No trams arriving within the next 5 minutes.''])
           @ [Sleep 30]
           @ fst (poll_loop utc_plus_1 demo_decoder demo_routes demo_selected []),
           snd (poll_loop utc_plus_1 demo_decoder demo_routes demo_selected []))"
    by blast
  then have 4: "poll_loop utc_plus_1 demo_decoder demo_routes demo_selected (?good1 # [])
       = ([Print (CHR 0x0A # ''Fetching real-time data...''),
           Print [CHR 0x1B, CHR ''['', CHR ''H'', CHR 0x1B, CHR ''['', CHR ''J''],
           Print (board_header demo_selected),
           Print ''No trams arriving within the next 5 minutes.'',
           Sleep 30],
          Running)"
    by simp
  have 5: "length (cycles late_crash_env) = 3"
    by (simp add: late_crash_env_def)
  from 1 2 3 4 5 demo_decoder_malformed show ?thesis by simp
qed

end
